theory Spec2Isabelle
  imports Main
begin

section \<open>JavaScript helpers\<close>

text \<open>
  Strings are byte lists. \<open>toLowerCase\<close> is modelled on the ASCII letters, \<open>trim\<close> on
  the ASCII white space, and \<open>Number.prototype.toString\<close> on integers. A string with
  a cased letter outside ASCII, which \<open>String.prototype.toLowerCase\<close> would lower as
  well, is outside the model.
\<close>

definition lower_char :: "char \<Rightarrow> char" where
  "lower_char c =
     (let n = (of_char c :: nat) in if 65 \<le> n \<and> n \<le> 90 then char_of (n + 32) else c)"

definition toLowerCase :: "string \<Rightarrow> string" where
  "toLowerCase s = map lower_char s"

definition is_space :: "char \<Rightarrow> bool" where
  "is_space c = ((of_char c :: nat) \<in> {9, 10, 11, 12, 13, 32})"

definition trim :: "string \<Rightarrow> string" where
  "trim s = rev (dropWhile is_space (rev (dropWhile is_space s)))"

definition digit_char :: "nat \<Rightarrow> char" where
  "digit_char d = char_of (48 + d)"

fun toString_nat :: "nat \<Rightarrow> string" where
  "toString_nat n =
     (if n < 10 then [digit_char n] else toString_nat (n div 10) @ [digit_char (n mod 10)])"

declare toString_nat.simps [simp del]

definition toString :: "int \<Rightarrow> string" where
  "toString n = (if n < 0 then CHR ''-'' # toString_nat (nat (- n)) else toString_nat (nat n))"

definition is_digit :: "char \<Rightarrow> bool" where
  "is_digit c = (48 \<le> (of_char c :: nat) \<and> (of_char c :: nat) \<le> 57)"

text \<open>The decimal value of a string of digits, read from the left.\<close>

definition digits_value :: "string \<Rightarrow> nat" where
  "digits_value s = foldl (\<lambda>acc c. 10 * acc + ((of_char c :: nat) - 48)) 0 s"

text \<open>A string is falsy in a condition exactly when it is empty; \<open>null\<close> is falsy.\<close>

definition truthy :: "string option \<Rightarrow> bool" where
  "truthy v = (case v of None \<Rightarrow> False | Some s \<Rightarrow> s \<noteq> [])"

text \<open>
  A value that is a number or a string, its truth value in a condition, and the number
  it stands for in arithmetic. \<open>StringToNumber\<close> reads decimal integer literals, with
  white space around them and a sign in front; the empty string is 0. Every other
  string is given as \<open>None\<close>, which is \<open>NaN\<close> for a string that is no number; fractions,
  exponents and hexadecimal literals are not represented.
\<close>

datatype js_value = Num int | Str string

definition js_truthy :: "js_value \<Rightarrow> bool" where
  "js_truthy v = (case v of Num n \<Rightarrow> n \<noteq> 0 | Str s \<Rightarrow> s \<noteq> [])"

definition StringToNumber :: "string \<Rightarrow> int option" where
  "StringToNumber s =
     (case trim s of
        [] \<Rightarrow> Some 0
      | c # ds \<Rightarrow>
          if c = CHR ''-'' \<or> c = CHR ''+''
          then (if ds \<noteq> [] \<and> list_all is_digit ds
                then Some ((if c = CHR ''-'' then - 1 else 1) * int (digits_value ds))
                else None)
          else if list_all is_digit (c # ds) then Some (int (digits_value (c # ds)))
          else None)"

definition ToNumber :: "js_value \<Rightarrow> int option" where
  "ToNumber v = (case v of Num n \<Rightarrow> Some n | Str s \<Rightarrow> StringToNumber s)"

section \<open>Data model\<close>

datatype UserRole = USER | ADMIN

datatype UserStatus = ACTIVE | SUSPENDED | PENDING_VERIFICATION

text \<open>
  The columns of the table \<open>users\<close>. Timestamps are milliseconds since the epoch, as
  \<open>Date.now()\<close> gives them; a nullable column is an option. The column \<open>id\<close> is the
  field \<open>id'\<close>.
\<close>

record User =
  id' :: int
  email :: string
  password :: string
  name :: string
  firstName :: "string option"
  lastName :: "string option"
  phone :: "string option"
  role :: UserRole
  status :: UserStatus
  emailVerified :: bool
  emailVerificationToken :: "string option"
  resetPasswordToken :: "string option"
  resetPasswordExpires :: "int option"
  mfaEnabled :: bool
  mfaSecret :: "string option"
  lastLoginAt :: "int option"
  googleId :: "string option"
  profilePicture :: "string option"
  createdAt :: int
  updatedAt :: int
  isEmail :: bool
  isNotification :: bool
  fcmToken :: "string option"

text \<open>The table with its serial: \<open>users_id_seq\<close> is the id the next created row gets.\<close>

record Db =
  users :: "User list"
  users_id_seq :: int

text \<open>The payload of a token; \<open>iat\<close> and \<open>exp\<close> are in seconds.\<close>

record JwtPayload =
  sub :: int
  payload_email :: string
  payload_role :: UserRole
  iat :: int
  exp :: int

text \<open>
  A bearer token is kept symbolic: \<open>Jwt p k\<close> is the string that signing the payload
  \<open>p\<close> with the secret \<open>k\<close> gives, \<open>Raw s\<close> is any other string.
\<close>

datatype token = Jwt JwtPayload string | Raw string

text \<open>
  The configuration keys the service reads. The two \<open>EXPIRES_IN\<close> durations are given
  in seconds, as the signing library reads them: \<open>'15m'\<close> is 900 and \<open>'7d'\<close> is
  604800. \<open>JWT_EXPIRATION\<close> is the string of the environment, which the service
  passes on as it is.
\<close>

record Config =
  JWT_SECRET :: string
  JWT_EXPIRES_IN :: "int option"
  JWT_REFRESH_SECRET :: "string option"
  JWT_REFRESH_EXPIRES_IN :: "int option"
  JWT_EXPIRATION :: "string option"

definition configService_get :: "'a option \<Rightarrow> 'a \<Rightarrow> 'a" where
  "configService_get v dflt = (case v of None \<Rightarrow> dflt | Some x \<Rightarrow> x)"

text \<open>
  What the outside world answers during one call: the clock, the draw of
  \<open>crypto.randomInt\<close>, the bcrypt library and whether the mail transport accepts a message.
  Every \<open>Date.now()\<close> and \<open>new Date()\<close> of one call reads the same instant \<open>now\<close>.
\<close>

record Env =
  now :: int
  randomInt :: "int \<Rightarrow> int \<Rightarrow> int"
  bcrypt_hash :: "string \<Rightarrow> nat \<Rightarrow> string"
  bcrypt_compare :: "string \<Rightarrow> string \<Rightarrow> bool"
  transporter_sendMail_ok :: bool

datatype error =
    Unauthorized string
  | BadRequest string
  | Conflict string
  | NotFound string
  | InternalError string

text \<open>
  The user projections of the responses, field by field:
  \<open>LoginUser id email firstname lastname role emailVerified mfaEnabled isEmail
  isNotification profilePicture\<close> and
  \<open>OtpUser id email role emailVerified mfaEnabled isEmail isNotification\<close>.
\<close>

datatype LoginUser =
  LoginUser int string "string option" "string option" UserRole bool bool bool bool
    "string option"

datatype OtpUser = OtpUser int string UserRole bool bool bool bool

text \<open>
  The shapes a call returns: \<open>StatusMessage status message\<close>,
  \<open>RegisterResult status message userId\<close>, \<open>MfaRequired message mfaRequired email\<close>,
  \<open>LoginResult status message user accessToken refreshToken\<close>,
  \<open>OtpResult status message user accessToken refreshToken\<close>,
  \<open>TokenPair accessToken refreshToken\<close> and \<open>UserRow user\<close> for a call that
  returns the row itself.
\<close>

datatype response =
    StatusMessage string string
  | RegisterResult string string int
  | MfaRequired string bool string
  | LoginResult string string LoginUser token token
  | OtpResult string string OtpUser token token
  | TokenPair token token
  | UserRow User

section \<open>The store\<close>

definition findUnique_email :: "Db \<Rightarrow> string \<Rightarrow> User option" where
  "findUnique_email db e = find (\<lambda>u. email u = e) (users db)"

definition findUnique_id :: "Db \<Rightarrow> int \<Rightarrow> User option" where
  "findUnique_id db i = find (\<lambda>u. id' u = i) (users db)"

text \<open>
  \<open>prisma.user.update({ where: { id }, data })\<close>: the row with this id gets the data,
  and the store stamps its \<open>updatedAt\<close> column with the clock.
\<close>

definition stamped :: "Env \<Rightarrow> (User \<Rightarrow> User) \<Rightarrow> User \<Rightarrow> User" where
  "stamped env f u = (f u)\<lparr>updatedAt := now env\<rparr>"

definition user_update :: "Env \<Rightarrow> Db \<Rightarrow> int \<Rightarrow> (User \<Rightarrow> User) \<Rightarrow> Db" where
  "user_update env db i f =
     db\<lparr>users := map (\<lambda>u. if id' u = i then stamped env f u else u) (users db)\<rparr>"

text \<open>
  \<open>prisma.user.create\<close>: the row gets the next id of the serial. The callers have
  checked before that no row has the email.
\<close>

definition user_create :: "Db \<Rightarrow> User \<Rightarrow> Db \<times> User" where
  "user_create db u =
     (let r = u\<lparr>id' := users_id_seq db\<rparr>
      in (db\<lparr>users := users db @ [r], users_id_seq := users_id_seq db + 1\<rparr>, r))"

section \<open>AuthService\<close>

text \<open>
  The file \<open>auth.service.ts\<close> holds the class twice. The definitions follow the first
  one (lines 1 to 592), the one with \<open>generateOTP\<close> and with codes for registration
  and password reset; the second is an earlier version of the same class.
\<close>

definition comparePasswords :: "Env \<Rightarrow> string \<Rightarrow> string \<Rightarrow> bool" where
  "comparePasswords env plainText hashed = bcrypt_compare env plainText hashed"

definition generateOTP :: "Env \<Rightarrow> string" where
  "generateOTP env = toString (randomInt env 1000 9999)"


text \<open>
  \<open>JwtService.sign\<close> and \<open>JwtService.verify\<close> of the library, on symbolic tokens:
  a call without a \<open>secret\<close> option uses the secret of the module, \<open>iat\<close> is the
  clock in seconds, and a token is expired from the second \<open>exp\<close> on.
\<close>

datatype jwt_error = JsonWebTokenError string | TokenExpiredError

definition JwtService_sign ::
  "Config \<Rightarrow> Env \<Rightarrow> int \<times> string \<times> UserRole \<Rightarrow> string option \<Rightarrow> int \<Rightarrow> token" where
  "JwtService_sign cfg env p secret expiresIn =
     (case p of (s, e, r) \<Rightarrow>
        Jwt \<lparr>sub = s, payload_email = e, payload_role = r,
             iat = now env div 1000, exp = now env div 1000 + expiresIn\<rparr>
            (configService_get secret (JWT_SECRET cfg)))"

definition JwtService_verify ::
  "Config \<Rightarrow> Env \<Rightarrow> token \<Rightarrow> string option \<Rightarrow> jwt_error + JwtPayload" where
  "JwtService_verify cfg env t secret =
     (case t of
        Raw s \<Rightarrow> Inl (JsonWebTokenError ''jwt malformed'')
      | Jwt p k \<Rightarrow>
          if k \<noteq> configService_get secret (JWT_SECRET cfg)
          then Inl (JsonWebTokenError ''invalid signature'')
          else if exp p \<le> now env div 1000 then Inl TokenExpiredError
          else Inr p)"

definition generateTokens :: "Config \<Rightarrow> Env \<Rightarrow> User \<Rightarrow> error + token \<times> token" where
  "generateTokens cfg env user =
     (let payload = (id' user, email user, role user);
          accessToken =
            JwtService_sign cfg env payload None (configService_get (JWT_EXPIRES_IN cfg) 900);
          refreshSecret = JWT_REFRESH_SECRET cfg
      in if \<not> truthy refreshSecret
         then Inl (InternalError ''JWT_REFRESH_SECRET is not configured'')
         else Inr (accessToken,
                   JwtService_sign cfg env payload refreshSecret
                     (configService_get (JWT_REFRESH_EXPIRES_IN cfg) 604800)))"

text \<open>\<open>expires && expires < new Date()\<close>: a null expiry is never in the past.\<close>

definition expires_before_now :: "Env \<Rightarrow> int option \<Rightarrow> bool" where
  "expires_before_now env e = (case e of None \<Rightarrow> False | Some t \<Rightarrow> t < now env)"

text \<open>
  \<open>login({ email, password, fcmToken })\<close>. \<open>sendOTPEmail\<close> awaits the transport
  without a handler, so a failing transport fails the call after the update.
\<close>

definition login ::
  "Config \<Rightarrow> Env \<Rightarrow> Db \<Rightarrow> string \<Rightarrow> string \<Rightarrow> string option \<Rightarrow> Db \<times> (error + response)" where
  "login cfg env db email_in password_in fcmToken_in =
     (case findUnique_email db email_in of
        None \<Rightarrow> (db, Inl (Unauthorized ''No account found with this email.''))
      | Some user \<Rightarrow>
          if \<not> emailVerified user
          then (db, Inl (Unauthorized
                  ''Email not verified. Please check your email for verification OTP.''))
          else if \<not> comparePasswords env password_in (password user)
          then (db, Inl (Unauthorized ''Incorrect password.''))
          else
            let db1 = (if truthy fcmToken_in
                       then user_update env db (id' user) (\<lambda>u. u\<lparr>fcmToken := fcmToken_in\<rparr>)
                       else db)
            in if mfaEnabled user
               then
                 let otp = generateOTP env;
                     db2 = user_update env db1 (id' user)
                             (\<lambda>u. u\<lparr>resetPasswordToken := Some otp,
                                     resetPasswordExpires := Some (now env + 5 * 60 * 1000)\<rparr>)
                 in if transporter_sendMail_ok env
                    then (db2, Inr (MfaRequired ''OTP sent to your email for verification.''
                                      True (email user)))
                    else (db2, Inl (InternalError ''sendMail''))
               else
                 let db2 = user_update env db1 (id' user) (\<lambda>u. u\<lparr>lastLoginAt := Some (now env)\<rparr>)
                 in (case generateTokens cfg env user of
                       Inl e \<Rightarrow> (db2, Inl e)
                     | Inr tokens \<Rightarrow>
                         (db2, Inr (LoginResult ''success'' ''Successfully logged in.''
                            (LoginUser (id' user) (email user) (firstName user) (lastName user)
                               (role user) (emailVerified user) (mfaEnabled user) (isEmail user)
                               (isNotification user) (profilePicture user))
                            (fst tokens) (snd tokens)))))"

definition sendOtp :: "Env \<Rightarrow> Db \<Rightarrow> string \<Rightarrow> Db \<times> (error + response)" where
  "sendOtp env db email_in =
     (case findUnique_email db email_in of
        None \<Rightarrow> (db, Inl (BadRequest ''User not found.''))
      | Some user \<Rightarrow>
          let otp = generateOTP env;
              db1 = user_update env db (id' user)
                      (\<lambda>u. u\<lparr>resetPasswordToken := Some otp,
                              resetPasswordExpires := Some (now env + 5 * 60 * 1000)\<rparr>)
          in if transporter_sendMail_ok env
             then (db1, Inr (StatusMessage ''success'' ''OTP sent successfully.''))
             else (db1, Inl (InternalError ''sendMail'')))"

definition verifyOtp ::
  "Config \<Rightarrow> Env \<Rightarrow> Db \<Rightarrow> string \<Rightarrow> string \<Rightarrow> Db \<times> (error + response)" where
  "verifyOtp cfg env db email_in otp =
     (case findUnique_email db email_in of
        None \<Rightarrow> (db, Inl (BadRequest ''User not found.''))
      | Some user \<Rightarrow>
          if \<not> truthy (resetPasswordToken user) \<or> resetPasswordToken user \<noteq> Some otp
          then (db, Inl (Unauthorized ''Invalid or expired OTP.''))
          else if expires_before_now env (resetPasswordExpires user)
          then (db, Inl (Unauthorized ''OTP expired.''))
          else
            let db1 = user_update env db (id' user)
                        (\<lambda>u. u\<lparr>resetPasswordToken := None, resetPasswordExpires := None,
                                lastLoginAt := Some (now env)\<rparr>)
            in (case generateTokens cfg env user of
                  Inl e \<Rightarrow> (db1, Inl e)
                | Inr tokens \<Rightarrow>
                    (db1, Inr (OtpResult ''success'' ''OTP verified successfully.''
                       (OtpUser (id' user) (email user) (role user) (emailVerified user)
                          (mfaEnabled user) (isEmail user) (isNotification user))
                       (fst tokens) (snd tokens)))))"

text \<open>
  A new row: the columns a \<open>create\<close> does not give take the defaults of the table
  (\<open>role USER\<close>, \<open>status PENDING_VERIFICATION\<close>, \<open>emailVerified false\<close>, \<open>mfaEnabled
  false\<close>, \<open>isEmail true\<close>, \<open>isNotification true\<close>, the timestamps) or null.
\<close>

definition users_defaults :: "Env \<Rightarrow> User" where
  "users_defaults env =
     \<lparr>id' = 0, email = [], password = [], name = [], firstName = None, lastName = None,
      phone = None, role = USER, status = PENDING_VERIFICATION, emailVerified = False,
      emailVerificationToken = None, resetPasswordToken = None, resetPasswordExpires = None,
      mfaEnabled = False, mfaSecret = None, lastLoginAt = None, googleId = None,
      profilePicture = None, createdAt = now env, updatedAt = now env, isEmail = True,
      isNotification = True, fcmToken = None\<rparr>"

text \<open>
  \<open>register({ email, password, firstName, lastName, phone })\<close>. The verification mail
  is sent when \<open>isEmail\<close> holds; \<open>sendEmailVerificationOTP\<close> catches every failure and
  touches neither the table nor the result.
\<close>

definition register ::
  "Env \<Rightarrow> Db \<Rightarrow> string \<Rightarrow> string \<Rightarrow> string \<Rightarrow> string \<Rightarrow> string option
     \<Rightarrow> Db \<times> (error + response)" where
  "register env db email_in password_in firstName_in lastName_in phone_in =
     (case findUnique_email db (toLowerCase email_in) of
        Some existingUser \<Rightarrow> (db, Inl (Conflict ''User with this email already exists''))
      | None \<Rightarrow>
          let hashedPassword = bcrypt_hash env password_in 12;
              otp = generateOTP env;
              created = user_create db
                ((users_defaults env)
                   \<lparr>email := toLowerCase email_in,
                    password := hashedPassword,
                    name := trim (firstName_in @ '' '' @ lastName_in),
                    firstName := Some firstName_in,
                    lastName := Some lastName_in,
                    phone := phone_in,
                    role := USER,
                    status := PENDING_VERIFICATION,
                    emailVerified := False,
                    emailVerificationToken := Some otp,
                    resetPasswordExpires := Some (now env + 10 * 60 * 1000)\<rparr>)
          in (fst created,
              Inr (RegisterResult ''success''
                ''Registration successful. Please check your email for verification OTP.''
                (id' (snd created)))))"

definition verifyEmail :: "Env \<Rightarrow> Db \<Rightarrow> string \<Rightarrow> string \<Rightarrow> Db \<times> (error + response)" where
  "verifyEmail env db email_in otp =
     (case findUnique_email db (toLowerCase email_in) of
        None \<Rightarrow> (db, Inl (BadRequest ''User not found''))
      | Some user \<Rightarrow>
          if emailVerified user
          then (db, Inr (StatusMessage ''success'' ''Email already verified''))
          else if \<not> truthy (emailVerificationToken user)
                  \<or> emailVerificationToken user \<noteq> Some otp
          then (db, Inl (BadRequest ''Invalid OTP''))
          else if expires_before_now env (resetPasswordExpires user)
          then (db, Inl (BadRequest ''OTP expired. Please request a new one.''))
          else
            (user_update env db (id' user)
               (\<lambda>u. u\<lparr>emailVerified := True, status := ACTIVE,
                       emailVerificationToken := None, resetPasswordExpires := None,
                       updatedAt := now env\<rparr>),
             Inr (StatusMessage ''success'' ''Email verified successfully'')))"

definition resendEmailVerificationOTP :: "Env \<Rightarrow> Db \<Rightarrow> string \<Rightarrow> Db \<times> (error + response)" where
  "resendEmailVerificationOTP env db email_in =
     (case findUnique_email db (toLowerCase email_in) of
        None \<Rightarrow> (db, Inl (BadRequest ''User not found''))
      | Some user \<Rightarrow>
          if emailVerified user
          then (db, Inr (StatusMessage ''success'' ''Email already verified''))
          else
            let otp = generateOTP env
            in (user_update env db (id' user)
                  (\<lambda>u. u\<lparr>emailVerificationToken := Some otp,
                          resetPasswordExpires := Some (now env + 10 * 60 * 1000)\<rparr>),
                Inr (StatusMessage ''success'' ''Verification OTP sent successfully.'')))"

definition changePassword ::
  "Env \<Rightarrow> Db \<Rightarrow> int \<Rightarrow> string \<Rightarrow> string \<Rightarrow> Db \<times> (error + response)" where
  "changePassword env db userId currentPassword newPassword =
     (case findUnique_id db userId of
        None \<Rightarrow> (db, Inl (Unauthorized ''User not found''))
      | Some user \<Rightarrow>
          if \<not> bcrypt_compare env currentPassword (password user)
          then (db, Inl (Unauthorized ''Current password is incorrect''))
          else
            let hashedNewPassword = bcrypt_hash env newPassword 12
            in (user_update env db userId
                  (\<lambda>u. u\<lparr>password := hashedNewPassword, updatedAt := now env\<rparr>),
                Inr (StatusMessage ''success'' ''Password changed successfully'')))"

text \<open>
  \<open>forgotPassword({ email })\<close>. As in \<open>register\<close>, the mail is sent through
  \<open>sendEmailVerificationOTP\<close> when \<open>isEmail\<close> holds and cannot fail the call.
\<close>

definition forgotPassword :: "Env \<Rightarrow> Db \<Rightarrow> string \<Rightarrow> Db \<times> (error + response)" where
  "forgotPassword env db email_in =
     (case findUnique_email db (toLowerCase email_in) of
        None \<Rightarrow>
          (db, Inr (StatusMessage ''success''
             ''If an account with this email exists, a password reset OTP has been sent.''))
      | Some user \<Rightarrow>
          let otp = generateOTP env
          in (user_update env db (id' user)
                (\<lambda>u. u\<lparr>resetPasswordToken := Some otp,
                        resetPasswordExpires := Some (now env + 10 * 60 * 1000)\<rparr>),
              Inr (StatusMessage ''success''
                ''If an account with this email exists, a password reset OTP has been sent.'')))"

definition resetPassword ::
  "Env \<Rightarrow> Db \<Rightarrow> string \<Rightarrow> string \<Rightarrow> string \<Rightarrow> string \<Rightarrow> Db \<times> (error + response)" where
  "resetPassword env db email_in otp newPassword confirmPassword =
     (if newPassword \<noteq> confirmPassword
      then (db, Inl (BadRequest ''Passwords do not match''))
      else case findUnique_email db (toLowerCase email_in) of
        None \<Rightarrow> (db, Inl (BadRequest ''User not found''))
      | Some user \<Rightarrow>
          if \<not> truthy (resetPasswordToken user) \<or> resetPasswordToken user \<noteq> Some otp
          then (db, Inl (BadRequest ''Invalid OTP''))
          else if expires_before_now env (resetPasswordExpires user)
          then (db, Inl (BadRequest ''OTP expired. Please request a new one.''))
          else
            let hashedPassword = bcrypt_hash env newPassword 12
            in (user_update env db (id' user)
                  (\<lambda>u. u\<lparr>password := hashedPassword, resetPasswordToken := None,
                          resetPasswordExpires := None, updatedAt := now env\<rparr>),
                Inr (StatusMessage ''success'' ''Password reset successfully'')))"

text \<open>
  \<open>refreshToken(refreshToken)\<close>. The body of the \<open>try\<close> throws what \<open>verify\<close>
  throws, or \<open>Unauthorized('User not found')\<close>; the \<open>catch\<close> replaces whatever
  was thrown. The last statement of the body returns the promise of \<open>generateTokens\<close>
  without awaiting it, so a rejection of that promise passes the \<open>catch\<close> by.
\<close>

datatype thrown = JwtThrown jwt_error | HttpThrown error

definition refreshToken_try :: "Config \<Rightarrow> Env \<Rightarrow> Db \<Rightarrow> token \<Rightarrow> thrown + Db \<times> User" where
  "refreshToken_try cfg env db t =
     (case JwtService_verify cfg env t (JWT_REFRESH_SECRET cfg) of
        Inl e \<Rightarrow> Inl (JwtThrown e)
      | Inr payload \<Rightarrow>
          (case findUnique_id db (sub payload) of
             None \<Rightarrow> Inl (HttpThrown (Unauthorized ''User not found''))
           | Some user \<Rightarrow>
               Inr (user_update env db (id' user) (\<lambda>u. u\<lparr>lastLoginAt := Some (now env)\<rparr>),
                    user)))"

definition refreshToken :: "Config \<Rightarrow> Env \<Rightarrow> Db \<Rightarrow> token \<Rightarrow> Db \<times> (error + response)" where
  "refreshToken cfg env db t =
     (case refreshToken_try cfg env db t of
        Inl caught \<Rightarrow> (db, Inl (Unauthorized ''Invalid refresh token''))
      | Inr (db1, user) \<Rightarrow>
          (case generateTokens cfg env user of
             Inl e \<Rightarrow> (db1, Inl e)
           | Inr tokens \<Rightarrow> (db1, Inr (TokenPair (fst tokens) (snd tokens)))))"

text \<open>
  \<open>updateGoogleId(userId, googleId, picture)\<close> returns the updated row; an \<open>update\<close>
  of an id that no row has fails in the store, and a picture that is not given leaves
  the column as it is.
\<close>

definition set_googleId :: "string \<Rightarrow> string option \<Rightarrow> User \<Rightarrow> User" where
  "set_googleId gid picture u =
     u\<lparr>googleId := Some gid,
       profilePicture := (case picture of None \<Rightarrow> profilePicture u | Some p \<Rightarrow> Some p)\<rparr>"

definition updateGoogleId ::
  "Env \<Rightarrow> Db \<Rightarrow> int \<Rightarrow> string \<Rightarrow> string option \<Rightarrow> Db \<times> (error + response)" where
  "updateGoogleId env db userId gid picture =
     (case findUnique_id db userId of
        None \<Rightarrow> (db, Inl (InternalError ''Record to update not found''))
      | Some user \<Rightarrow>
          (user_update env db userId (set_googleId gid picture),
           Inr (UserRow (stamped env (set_googleId gid picture) user))))"

text \<open>
  \<open>createGoogleUser(userData)\<close> with the fields \<open>email\<close>, \<open>name\<close>, \<open>googleId\<close>,
  \<open>profilePicture\<close>, \<open>role\<close> and \<open>emailVerified\<close> of \<open>GoogleUserData\<close>. The first
  name is \<open>name.split(' ')[0]\<close>, the last name what follows the first space. The
  unique index on \<open>email\<close> makes the \<open>create\<close> fail when a row has the email; the
  failed insert has drawn its id from the serial all the same.
\<close>

definition split_first :: "string \<Rightarrow> string" where
  "split_first s = takeWhile (\<lambda>c. c \<noteq> CHR '' '') s"

definition split_rest :: "string \<Rightarrow> string" where
  "split_rest s = drop 1 (dropWhile (\<lambda>c. c \<noteq> CHR '' '') s)"

definition createGoogleUser ::
  "Env \<Rightarrow> Db \<Rightarrow> string \<Rightarrow> string \<Rightarrow> string \<Rightarrow> string option \<Rightarrow> UserRole \<Rightarrow> bool
     \<Rightarrow> Db \<times> (error + response)" where
  "createGoogleUser env db email_in name_in gid picture role_in verified =
     (case findUnique_email db email_in of
        Some existing \<Rightarrow>
          (db\<lparr>users_id_seq := users_id_seq db + 1\<rparr>,
           Inl (InternalError ''Unique constraint failed''))
      | None \<Rightarrow>
          let created = user_create db
                ((users_defaults env)
                   \<lparr>email := email_in,
                    name := name_in,
                    firstName := Some (split_first name_in),
                    lastName := Some (split_rest name_in),
                    googleId := Some gid,
                    profilePicture := picture,
                    role := role_in,
                    emailVerified := verified,
                    status := ACTIVE,
                    password := []\<rparr>)
          in (fst created, Inr (UserRow (snd created))))"

section \<open>RedisService\<close>

text \<open>
  The cache is the \<open>Map\<close> of the service; \<open>expiresAt\<close> is a time in milliseconds,
  \<open>Infinity\<close> or \<open>NaN\<close>, and nothing is less than the last two. The only keys the
  service writes are \<open>blacklist:\<close> followed by a token.
\<close>

datatype expiry = At int | Infinity | NaN

record entry =
  val :: string
  expiresAt :: expiry

datatype cache_key = Blacklist token

type_synonym cache = "cache_key \<rightharpoonup> entry"

definition expiry_less :: "expiry \<Rightarrow> int \<Rightarrow> bool" where
  "expiry_less e t = (case e of At x \<Rightarrow> x < t | Infinity \<Rightarrow> False | NaN \<Rightarrow> False)"

definition cleanupExpired :: "Env \<Rightarrow> cache \<Rightarrow> cache" where
  "cleanupExpired env c =
     (\<lambda>k. case c k of
             None \<Rightarrow> None
           | Some e \<Rightarrow> if expiry_less (expiresAt e) (now env) then None else Some e)"

text \<open>
  \<open>set(key, value, ttlSeconds?)\<close>: \<open>ttlSeconds ? Date.now() + ttlSeconds * 1000 :
  Infinity\<close>. A missing \<open>ttlSeconds\<close>, the number 0 and the empty string are falsy;
  the product turns a string into the number it stands for.
\<close>

definition RedisService_set ::
  "Env \<Rightarrow> cache \<Rightarrow> cache_key \<Rightarrow> string \<Rightarrow> js_value option \<Rightarrow> cache" where
  "RedisService_set env c key v ttlSeconds =
     (let expiresAt_new =
            (case ttlSeconds of
               None \<Rightarrow> Infinity
             | Some ttl \<Rightarrow>
                 if js_truthy ttl
                 then (case ToNumber ttl of
                         Some n \<Rightarrow> At (now env + n * 1000)
                       | None \<Rightarrow> NaN)
                 else Infinity)
      in cleanupExpired env (c(key \<mapsto> \<lparr>val = v, expiresAt = expiresAt_new\<rparr>)))"

definition RedisService_get :: "Env \<Rightarrow> cache \<Rightarrow> cache_key \<Rightarrow> cache \<times> string option" where
  "RedisService_get env c key =
     (case c key of
        None \<Rightarrow> (c, None)
      | Some e \<Rightarrow>
          if expiry_less (expiresAt e) (now env) then (c(key := None), None)
          else (c, Some (val e)))"

section \<open>Logout\<close>

text \<open>
  \<open>logout(userId, token)\<close>. \<open>configService.get('JWT_EXPIRATION', 3600)\<close> is the
  string of the environment when the key is set and the number 3600 when it is not.
\<close>

definition logout ::
  "Config \<Rightarrow> Env \<Rightarrow> cache \<Rightarrow> int \<Rightarrow> token \<Rightarrow> cache \<times> (error + response)" where
  "logout cfg env c userId t =
     (let ttl = configService_get (map_option Str (JWT_EXPIRATION cfg)) (Num 3600)
      in (RedisService_set env c (Blacklist t) ''true'' (Some ttl),
          Inr (StatusMessage ''success'' ''Logged out successfully'')))"

definition isTokenBlacklisted :: "Env \<Rightarrow> cache \<Rightarrow> token \<Rightarrow> cache \<times> bool" where
  "isTokenBlacklisted env c t =
     (case RedisService_get env c (Blacklist t) of (c1, v) \<Rightarrow> (c1, truthy v))"

text \<open>
  The \<open>authorization\<close> header of a request: \<open>Bearer t\<close> is the string \<open>'Bearer '\<close>
  followed by the token \<open>t\<close>, \<open>Other s\<close> is any other string. \<open>replace('Bearer ', '')\<close>
  removes the first occurrence of the prefix.
\<close>

datatype authorization = Bearer token | Other string

fun replace_first :: "string \<Rightarrow> string \<Rightarrow> string \<Rightarrow> string" where
  "replace_first pat rep [] = (if pat = [] then rep else [])"
| "replace_first pat rep (c # cs) =
     (if take (length pat) (c # cs) = pat then rep @ drop (length pat) (c # cs)
      else c # replace_first pat rep cs)"

definition replace_Bearer :: "authorization \<Rightarrow> token" where
  "replace_Bearer h =
     (case h of Bearer t \<Rightarrow> t | Other s \<Rightarrow> Raw (replace_first ''Bearer '' [] s))"

text \<open>\<open>AuthController.logout\<close>: \<open>!token\<close> holds for a missing header and for the empty string.\<close>

definition AuthController_logout ::
  "Config \<Rightarrow> Env \<Rightarrow> cache \<Rightarrow> int \<Rightarrow> authorization option \<Rightarrow> cache \<times> (error + response)" where
  "AuthController_logout cfg env c userId header =
     (case map_option replace_Bearer header of
        None \<Rightarrow> (c, Inl (Unauthorized ''Token not found''))
      | Some t \<Rightarrow>
          if t = Raw [] then (c, Inl (Unauthorized ''Token not found''))
          else logout cfg env c userId t)"

section \<open>Calls and runs\<close>

text \<open>
  The calls of the service that write the table, with their arguments in the order of
  the definitions above, and what one call does to the table.
\<close>

datatype request =
    Login string string "string option"
  | SendOtp string
  | VerifyOtp string string
  | Register string string string string "string option"
  | VerifyEmail string string
  | ResendEmailVerificationOTP string
  | ChangePassword int string string
  | ForgotPassword string
  | ResetPassword string string string string
  | RefreshToken token
  | UpdateGoogleId int string "string option"
  | CreateGoogleUser string string string "string option" UserRole bool

fun AuthService_call :: "Config \<Rightarrow> Env \<Rightarrow> Db \<Rightarrow> request \<Rightarrow> Db \<times> (error + response)" where
  "AuthService_call cfg env db (Login e pw fcm) = login cfg env db e pw fcm"
| "AuthService_call cfg env db (SendOtp e) = sendOtp env db e"
| "AuthService_call cfg env db (VerifyOtp e otp) = verifyOtp cfg env db e otp"
| "AuthService_call cfg env db (Register e pw fn ln ph) = register env db e pw fn ln ph"
| "AuthService_call cfg env db (VerifyEmail e otp) = verifyEmail env db e otp"
| "AuthService_call cfg env db (ResendEmailVerificationOTP e) =
     resendEmailVerificationOTP env db e"
| "AuthService_call cfg env db (ChangePassword i cur new) = changePassword env db i cur new"
| "AuthService_call cfg env db (ForgotPassword e) = forgotPassword env db e"
| "AuthService_call cfg env db (ResetPassword e otp np cp) = resetPassword env db e otp np cp"
| "AuthService_call cfg env db (RefreshToken t) = refreshToken cfg env db t"
| "AuthService_call cfg env db (UpdateGoogleId i gid pic) = updateGoogleId env db i gid pic"
| "AuthService_call cfg env db (CreateGoogleUser e n gid pic r v) =
     createGoogleUser env db e n gid pic r v"

text \<open>A run is a list of calls, each with the world it meets.\<close>

fun run :: "Config \<Rightarrow> Db \<Rightarrow> (Env \<times> request) list \<Rightarrow> Db" where
  "run cfg db [] = db"
| "run cfg db (c # cs) = run cfg (fst (AuthService_call cfg (fst c) db (snd c))) cs"

text \<open>
  A call verifies the email \<open>e\<close> when it is a \<open>verifyEmail\<close> for \<open>e\<close> that returns
  \<open>Email verified successfully\<close>; \<open>never_verified\<close> says that no call of a run does.
\<close>

fun verifies :: "Env \<Rightarrow> Db \<Rightarrow> string \<Rightarrow> request \<Rightarrow> bool" where
  "verifies env db e (VerifyEmail e_in otp) =
     (toLowerCase e_in = e
      \<and> snd (verifyEmail env db e_in otp)
          = Inr (StatusMessage ''success'' ''Email verified successfully''))"
| "verifies env db e r = False"

fun never_verified :: "Config \<Rightarrow> Db \<Rightarrow> string \<Rightarrow> (Env \<times> request) list \<Rightarrow> bool" where
  "never_verified cfg db e [] = True"
| "never_verified cfg db e (c # cs) =
     (\<not> verifies (fst c) db e (snd c)
      \<and> never_verified cfg (fst (AuthService_call cfg (fst c) db (snd c))) e cs)"

text \<open>The primary key and the serial: ids are distinct and below the next id.\<close>

definition wf_db :: "Db \<Rightarrow> bool" where
  "wf_db db =
     (distinct (map id' (users db)) \<and> list_all (\<lambda>u. id' u < users_id_seq db) (users db))"

text \<open>The status and the verified flag of the row with an email, when there is one.\<close>

definition verification_state :: "Db \<Rightarrow> string \<Rightarrow> (UserStatus \<times> bool) option" where
  "verification_state db e =
     map_option (\<lambda>u. (status u, emailVerified u)) (findUnique_email db e)"

section \<open>Example inputs\<close>

text \<open>
  A concrete world, configuration and table for running the definitions: the clock
  stands at 1000000 ms, the draw is 4821, and the hash of \<open>p\<close> is \<open>$2b$\<close> followed by
  \<open>p\<close>. The configuration sets the two secrets and leaves the rest to the defaults.
\<close>

definition example_env :: Env where
  "example_env =
     \<lparr>now = 1000000, randomInt = (\<lambda>lo hi. 4821), bcrypt_hash = (\<lambda>p r. ''$2b$'' @ p),
      bcrypt_compare = (\<lambda>p h. h = ''$2b$'' @ p), transporter_sendMail_ok = True\<rparr>"

definition example_cfg :: Config where
  "example_cfg =
     \<lparr>JWT_SECRET = ''s1'', JWT_EXPIRES_IN = None, JWT_REFRESH_SECRET = Some ''s2'',
      JWT_REFRESH_EXPIRES_IN = None, JWT_EXPIRATION = None\<rparr>"

text \<open>The same with access tokens that are signed for seven days.\<close>

definition example_cfg_7d :: Config where
  "example_cfg_7d = example_cfg\<lparr>JWT_EXPIRES_IN := Some 604800\<rparr>"

definition empty_db :: Db where
  "empty_db = \<lparr>users = [], users_id_seq = 1\<rparr>"

text \<open>Alice, verified and active, with the password \<open>Passw0rd!\<close> and no challenge.\<close>

definition alice :: User where
  "alice =
     \<lparr>id' = 1, email = ''alice@example.com'', password = ''$2b$Passw0rd!'',
      name = ''Alice A'', firstName = Some ''Alice'', lastName = Some ''A'',
      phone = None, role = USER, status = ACTIVE, emailVerified = True,
      emailVerificationToken = None, resetPasswordToken = None,
      resetPasswordExpires = None, mfaEnabled = False, mfaSecret = None,
      lastLoginAt = None, googleId = None, profilePicture = None, createdAt = 0,
      updatedAt = 0, isEmail = True, isNotification = True, fcmToken = None\<rparr>"

definition db_of :: "User \<Rightarrow> Db" where
  "db_of u = \<lparr>users = [u], users_id_seq = id' u + 1\<rparr>"

text \<open>
  Alice with an outstanding code \<open>4821\<close>: \<open>alice_with_code e\<close> has the expiry \<open>e\<close>.
\<close>

definition alice_with_code :: "int option \<Rightarrow> User" where
  "alice_with_code e = alice\<lparr>resetPasswordToken := Some ''4821'', resetPasswordExpires := e\<rparr>"

text \<open>Alice with MFA switched on and the code 4821 outstanding.\<close>

definition alice_mfa :: User where
  "alice_mfa = (alice_with_code (Some 1300000))\<lparr>mfaEnabled := True\<rparr>"

text \<open>Bob: registered but not verified, the code 4821 in both code columns, no expiry.\<close>

definition bob :: User where
  "bob = alice\<lparr>id' := 2, email := ''bob@example.com'', status := PENDING_VERIFICATION,
            emailVerified := False, emailVerificationToken := Some ''4821'',
            resetPasswordToken := Some ''4821''\<rparr>"

text \<open>The token pair that \<open>generateTokens\<close> signs for Alice in the example world.\<close>

definition example_access_token :: token where
  "example_access_token =
     Jwt \<lparr>sub = 1, payload_email = ''alice@example.com'', payload_role = USER,
          iat = 1000, exp = 1900\<rparr> ''s1''"

definition example_refresh_token :: token where
  "example_refresh_token =
     Jwt \<lparr>sub = 1, payload_email = ''alice@example.com'', payload_role = USER,
          iat = 1000, exp = 605800\<rparr> ''s2''"

text \<open>The row that registering Bob in the example world creates.\<close>

definition bob_registered :: User where
  "bob_registered =
     \<lparr>id' = 1, email = ''bob@example.com'', password = ''$2b$Passw0rd!'',
      name = ''Bob B'', firstName = Some ''Bob'', lastName = Some ''B'',
      phone = None, role = USER, status = PENDING_VERIFICATION, emailVerified = False,
      emailVerificationToken = Some ''4821'', resetPasswordToken = None,
      resetPasswordExpires = Some 1600000, mfaEnabled = False, mfaSecret = None,
      lastLoginAt = None, googleId = None, profilePicture = None, createdAt = 1000000,
      updatedAt = 1000000, isEmail = True, isNotification = True, fcmToken = None\<rparr>"

text \<open>
  A minute later the draw is 7350. Bob registers in the example world and asks for a
  password reset a minute later.
\<close>

definition example_env_later :: Env where
  "example_env_later = example_env\<lparr>now := 1060000, randomInt := (\<lambda>lo hi. 7350)\<rparr>"

definition db_registered :: Db where
  "db_registered =
     fst (register example_env empty_db ''Bob@Example.com'' ''Passw0rd!'' ''Bob'' ''B'' None)"

definition db_reset_requested :: Db where
  "db_reset_requested = fst (forgotPassword example_env_later db_registered ''bob@example.com'')"

text \<open>
  Alice's access token under the seven-day configuration, and the world 3600 seconds
  and a millisecond after the example world.
\<close>

definition example_access_token_7d :: token where
  "example_access_token_7d =
     Jwt \<lparr>sub = 1, payload_email = ''alice@example.com'', payload_role = USER,
          iat = 1000, exp = 605800\<rparr> ''s1''"

definition example_env_hour_later :: Env where
  "example_env_hour_later = example_env\<lparr>now := 4600001\<rparr>"

section \<open>Notions of the specification\<close>

text \<open>The kind of a failure.\<close>

fun is_BadRequest :: "error + response \<Rightarrow> bool" where
  "is_BadRequest (Inl (BadRequest m)) = True"
| "is_BadRequest r = False"

fun is_NotFound :: "error + response \<Rightarrow> bool" where
  "is_NotFound (Inl (NotFound m)) = True"
| "is_NotFound r = False"

text \<open>The code and the expiry that \<open>verifyOtp\<close> and \<open>resetPassword\<close> read.\<close>

definition challenge_slot :: "User \<Rightarrow> string option \<times> int option" where
  "challenge_slot u = (resetPasswordToken u, resetPasswordExpires u)"

text \<open>The three columns that hold challenges.\<close>

definition challenge_fields :: "User \<Rightarrow> string option \<times> string option \<times> int option" where
  "challenge_fields u = (emailVerificationToken u, resetPasswordToken u, resetPasswordExpires u)"

text \<open>
  The remaining validity of a token in seconds, from its own \<open>exp\<close> claim, and the
  cache expiry that the specification's logout derives from it.
\<close>

definition remaining_validity :: "Env \<Rightarrow> token \<Rightarrow> int option" where
  "remaining_validity env t =
     (case t of Jwt p k \<Rightarrow> Some (exp p - now env div 1000) | Raw s \<Rightarrow> None)"

definition spec_logout_expiresAt :: "Env \<Rightarrow> token \<Rightarrow> expiry option" where
  "spec_logout_expiresAt env t =
     map_option (\<lambda>ttl. At (now env + ttl * 1000)) (remaining_validity env t)"

section \<open>Decimal strings\<close>

lemma toString_nat_lt10: "n < 10 \<Longrightarrow> toString_nat n = [digit_char n]"
  by (simp add: toString_nat.simps)

lemma toString_nat_ge10:
  "10 \<le> n \<Longrightarrow> toString_nat n = toString_nat (n div 10) @ [digit_char (n mod 10)]"
  by (subst toString_nat.simps) simp

lemma length_toString_nat_4:
  assumes "1000 \<le> n" "n < 10000"
  shows "length (toString_nat n) = 4"
proof -
  have a: "10 \<le> n" "10 \<le> n div 10" "10 \<le> n div 10 div 10" "n div 10 div 10 div 10 < 10"
    using assms by auto
  show ?thesis
    by (simp add: toString_nat_ge10 [OF a(1)] toString_nat_ge10 [OF a(2)]
        toString_nat_ge10 [OF a(3)] toString_nat_lt10 [OF a(4)])
qed

lemma is_digit_digit_char: "d < 10 \<Longrightarrow> is_digit (digit_char d)"
  by (simp add: is_digit_def digit_char_def)

lemma toString_nat_digits: "list_all is_digit (toString_nat n)"
proof (induction n rule: toString_nat.induct)
  case (1 n)
  show ?case
  proof (cases "n < 10")
    case True
    then show ?thesis by (simp add: toString_nat_lt10 is_digit_digit_char)
  next
    case False
    then show ?thesis
      using 1 by (simp add: toString_nat_ge10 is_digit_digit_char)
  qed
qed

lemma digits_value_snoc:
  "digits_value (s @ [c]) = 10 * digits_value s + ((of_char c :: nat) - 48)"
  by (simp add: digits_value_def)

lemma of_char_digit_char: "d < 10 \<Longrightarrow> (of_char (digit_char d) :: nat) - 48 = d"
  by (simp add: digit_char_def)

lemma digits_value_toString_nat: "digits_value (toString_nat n) = n"
proof (induction n rule: toString_nat.induct)
  case (1 n)
  show ?case
  proof (cases "n < 10")
    case True
    then show ?thesis
      by (simp add: toString_nat_lt10 digits_value_def of_char_digit_char)
  next
    case False
    then show ?thesis
      using 1 by (simp add: toString_nat_ge10 digits_value_snoc of_char_digit_char)
  qed
qed

lemma generateOTP_range:
  assumes "1000 \<le> randomInt env 1000 9999" "randomInt env 1000 9999 < 9999"
  shows "length (generateOTP env) = 4" "list_all is_digit (generateOTP env)"
    "int (digits_value (generateOTP env)) = randomInt env 1000 9999"
proof -
  let ?n = "nat (randomInt env 1000 9999)"
  have g: "generateOTP env = toString_nat ?n"
    using assms by (simp add: generateOTP_def toString_def)
  show "length (generateOTP env) = 4"
    unfolding g using assms by (intro length_toString_nat_4) auto
  show "list_all is_digit (generateOTP env)"
    unfolding g by (rule toString_nat_digits)
  show "int (digits_value (generateOTP env)) = randomInt env 1000 9999"
    unfolding g using assms by (simp add: digits_value_toString_nat)
qed

lemma digit_char_values:
  "digit_char 0 = CHR ''0''" "digit_char 1 = CHR ''1''" "digit_char 2 = CHR ''2''"
  "digit_char 3 = CHR ''3''" "digit_char 4 = CHR ''4''" "digit_char 5 = CHR ''5''"
  "digit_char 6 = CHR ''6''" "digit_char 7 = CHR ''7''" "digit_char 8 = CHR ''8''"
  "digit_char 9 = CHR ''9''" "digit_char (Suc 0) = CHR ''1''"
  by code_simp+

lemma generateOTP_example: "generateOTP example_env = ''4821''"
  by (simp add: generateOTP_def toString_def example_env_def toString_nat_ge10
      toString_nat_lt10 digit_char_values)

section \<open>Looking a row up after a write\<close>

lemma find_map_update:
  assumes "find (\<lambda>u. email u = e) xs = Some u" "\<And>x. email (f x) = email x"
  shows "find (\<lambda>u. email u = e) (map (\<lambda>x. if id' x = id' u then f x else x) xs) = Some (f u)"
  using assms by (induction xs) (auto split: if_splits)

lemma findUnique_email_user_update:
  "findUnique_email db e = Some u \<Longrightarrow> i = id' u \<Longrightarrow> (\<And>x. email (f x) = email x) \<Longrightarrow>
   findUnique_email (user_update env db i f) e = Some ((f u)\<lparr>updatedAt := now env\<rparr>)"
  using find_map_update [of e "users db" u "stamped env f"]
  by (simp add: findUnique_email_def user_update_def stamped_def)

lemma find_snoc_None:
  "find P xs = None \<Longrightarrow> find P (xs @ [y]) = (if P y then Some y else None)"
  by (induction xs) (auto split: if_splits)

lemma findUnique_email_user_create:
  "findUnique_email db e = None \<Longrightarrow> email u = e \<Longrightarrow>
   findUnique_email (fst (user_create db u)) e = Some (u\<lparr>id' := users_id_seq db\<rparr>)"
  by (simp add: findUnique_email_def user_create_def Let_def find_snoc_None)

lemma findUnique_email_db_of: "findUnique_email (db_of u) (email u) = Some u"
  by (simp add: findUnique_email_def db_of_def)

section \<open>The one-time code\<close>

lemma register_stores_otp:
  assumes "findUnique_email db (toLowerCase e) = None"
  shows "map_option emailVerificationToken
           (findUnique_email (fst (register env db e pw fn ln ph)) (toLowerCase e))
         = Some (Some (generateOTP env))"
  using assms by (simp add: register_def Let_def findUnique_email_user_create)

lemma login_stores_otp:
  assumes "findUnique_email db e = Some u" "emailVerified u"
    "bcrypt_compare env pw (password u)" "mfaEnabled u"
  shows "map_option resetPasswordToken (findUnique_email (fst (login cfg env db e pw fcm)) e)
         = Some (Some (generateOTP env))"
  using assms
  by (simp add: login_def Let_def comparePasswords_def findUnique_email_user_update)

lemma sendOtp_stores_otp:
  assumes "findUnique_email db e = Some u"
  shows "map_option resetPasswordToken (findUnique_email (fst (sendOtp env db e)) e)
         = Some (Some (generateOTP env))"
  using assms by (simp add: sendOtp_def Let_def findUnique_email_user_update)

lemma forgotPassword_stores_otp:
  assumes "findUnique_email db (toLowerCase e) = Some u"
  shows "map_option resetPasswordToken
           (findUnique_email (fst (forgotPassword env db e)) (toLowerCase e))
         = Some (Some (generateOTP env))"
  using assms by (simp add: forgotPassword_def Let_def findUnique_email_user_update)

text \<open>
  C10. When \<open>randomInt(1000, 9999)\<close> keeps its contract (at least 1000, below 9999),
  the code \<open>generateOTP\<close> returns is a string of exactly four decimal digits whose
  value is between 1000 and 9998, so 9999 never comes out. The same generator gives the
  code that registration stores for a new account, and the code that login with MFA,
  send-OTP and forgot-password store for an existing one.
\<close>

theorem generateOTP_four_digits_every_flow:
  assumes "1000 \<le> randomInt env 1000 9999" and "randomInt env 1000 9999 < 9999"
  shows "length (generateOTP env) = 4 \<and> list_all is_digit (generateOTP env)
     \<and> 1000 \<le> digits_value (generateOTP env) \<and> digits_value (generateOTP env) \<le> 9998
     \<and> (findUnique_email db_r (toLowerCase e_r) = None \<longrightarrow>
          map_option emailVerificationToken
            (findUnique_email (fst (register env db_r e_r pw_r fn ln ph)) (toLowerCase e_r))
          = Some (Some (generateOTP env)))
     \<and> (findUnique_email db e = Some u \<and> emailVerified u
          \<and> bcrypt_compare env pw (password u) \<and> mfaEnabled u \<longrightarrow>
          map_option resetPasswordToken (findUnique_email (fst (login cfg env db e pw fcm)) e)
          = Some (Some (generateOTP env)))
     \<and> (findUnique_email db e = Some u \<longrightarrow>
          map_option resetPasswordToken (findUnique_email (fst (sendOtp env db e)) e)
          = Some (Some (generateOTP env)))
     \<and> (findUnique_email db (toLowerCase e) = Some u \<longrightarrow>
          map_option resetPasswordToken
            (findUnique_email (fst (forgotPassword env db e)) (toLowerCase e))
          = Some (Some (generateOTP env)))"
proof -
  have v: "int (digits_value (generateOTP env)) = randomInt env 1000 9999"
    using assms by (rule generateOTP_range(3))
  have "1000 \<le> digits_value (generateOTP env)" "digits_value (generateOTP env) \<le> 9998"
    using v assms by linarith+
  then show ?thesis
    using generateOTP_range(1,2) [OF assms]
    by (simp add: register_stores_otp login_stores_otp sendOtp_stores_otp
        forgotPassword_stores_otp)
qed

theorem generateOTP_four_digits_every_flow_witness:
  "1000 \<le> randomInt example_env 1000 9999 \<and> randomInt example_env 1000 9999 < 9999
   \<and> findUnique_email empty_db (toLowerCase ''Bob@Example.com'') = None
   \<and> findUnique_email (db_of (alice\<lparr>mfaEnabled := True\<rparr>)) ''alice@example.com''
       = Some (alice\<lparr>mfaEnabled := True\<rparr>)
   \<and> generateOTP example_env = ''4821''
   \<and> length (generateOTP example_env) = 4
   \<and> digits_value (generateOTP example_env) = 4821
   \<and> map_option emailVerificationToken
        (findUnique_email
           (fst (register example_env empty_db ''Bob@Example.com'' ''pw'' ''Bob'' ''B'' None))
           (toLowerCase ''Bob@Example.com'')) = Some (Some ''4821'')
   \<and> map_option resetPasswordToken
        (findUnique_email
           (fst (login example_cfg example_env (db_of (alice\<lparr>mfaEnabled := True\<rparr>))
                  ''alice@example.com'' ''Passw0rd!'' None))
           ''alice@example.com'') = Some (Some ''4821'')
   \<and> map_option resetPasswordToken
        (findUnique_email
           (fst (forgotPassword example_env (db_of (alice\<lparr>mfaEnabled := True\<rparr>))
                  ''alice@example.com''))
           (toLowerCase ''alice@example.com'')) = Some (Some ''4821'')"
proof -
  have r: "1000 \<le> randomInt example_env 1000 9999" "randomInt example_env 1000 9999 < 9999"
    by (simp_all add: example_env_def)
  have lc: "toLowerCase ''alice@example.com'' = ''alice@example.com''"
    by (simp add: toLowerCase_def lower_char_def)
  have f0: "findUnique_email empty_db (toLowerCase ''Bob@Example.com'') = None"
    by (simp add: findUnique_email_def empty_db_def)
  have f1: "findUnique_email (db_of (alice\<lparr>mfaEnabled := True\<rparr>)) ''alice@example.com''
              = Some (alice\<lparr>mfaEnabled := True\<rparr>)"
    using findUnique_email_db_of [of "alice\<lparr>mfaEnabled := True\<rparr>"] by (simp add: alice_def)
  have h: "emailVerified (alice\<lparr>mfaEnabled := True\<rparr>)"
    "bcrypt_compare example_env ''Passw0rd!'' (password (alice\<lparr>mfaEnabled := True\<rparr>))"
    "mfaEnabled (alice\<lparr>mfaEnabled := True\<rparr>)"
    by (simp_all add: alice_def example_env_def)
  have d: "digits_value ''4821'' = 4821"
    by (simp add: digits_value_def)
  show ?thesis
    using generateOTP_four_digits_every_flow [OF r, where db_r = empty_db
        and e_r = "''Bob@Example.com''" and pw_r = "''pw''" and fn = "''Bob''" and ln = "''B''"
        and ph = None and db = "db_of (alice\<lparr>mfaEnabled := True\<rparr>)"
        and e = "''alice@example.com''" and u = "alice\<lparr>mfaEnabled := True\<rparr>"
        and pw = "''Passw0rd!''" and cfg = example_cfg and fcm = None]
      r f0 f1 h d
    by (simp add: generateOTP_example lc)
qed

section \<open>Example runs\<close>

lemma toLowerCase_alice: "toLowerCase ''alice@example.com'' = ''alice@example.com''"
  by (simp add: toLowerCase_def lower_char_def)

lemma toLowerCase_Alice: "toLowerCase ''Alice@Example.com'' = ''alice@example.com''"
  by code_simp

lemma findUnique_email_alice:
  "email u = ''alice@example.com'' \<Longrightarrow> findUnique_email (db_of u) ''alice@example.com'' = Some u"
  using findUnique_email_db_of [of u] by simp

lemma generateTokens_alice:
  assumes "id' u = 1" "email u = ''alice@example.com''" "role u = USER"
  shows "generateTokens example_cfg example_env u
           = Inr (example_access_token, example_refresh_token)"
  using assms
  by (simp add: generateTokens_def JwtService_sign_def example_cfg_def example_env_def
      example_access_token_def example_refresh_token_def configService_get_def truthy_def
      Let_def)

section \<open>Forgot password\<close>

text \<open>
  C6. A \<open>forgotPassword\<close> call for an email that has an account and a call for an email
  that has none return the same envelope: status \<open>success\<close> and the one generic message.
\<close>

theorem forgotPassword_same_envelope:
  assumes "findUnique_email db_a (toLowerCase e_a) = Some u"
    and "findUnique_email db_b (toLowerCase e_b) = None"
  shows "snd (forgotPassword env_a db_a e_a) = snd (forgotPassword env_b db_b e_b)
     \<and> snd (forgotPassword env_a db_a e_a) = Inr (StatusMessage ''success''
          ''If an account with this email exists, a password reset OTP has been sent.'')"
  using assms by (simp add: forgotPassword_def Let_def)

theorem forgotPassword_same_envelope_witness:
  "findUnique_email (db_of alice) (toLowerCase ''Alice@Example.com'') = Some alice
   \<and> findUnique_email (db_of alice) (toLowerCase ''nobody@example.com'') = None
   \<and> snd (forgotPassword example_env (db_of alice) ''Alice@Example.com'')
       = snd (forgotPassword example_env (db_of alice) ''nobody@example.com'')
   \<and> snd (forgotPassword example_env (db_of alice) ''Alice@Example.com'')
       = Inr (StatusMessage ''success''
          ''If an account with this email exists, a password reset OTP has been sent.'')"
proof -
  have a: "findUnique_email (db_of alice) (toLowerCase ''Alice@Example.com'') = Some alice"
    by (simp add: toLowerCase_Alice findUnique_email_alice alice_def)
  have b: "findUnique_email (db_of alice) (toLowerCase ''nobody@example.com'') = None"
    by (simp add: findUnique_email_def db_of_def alice_def toLowerCase_def lower_char_def)
  note t = forgotPassword_same_envelope [OF a b, of example_env example_env]
  show ?thesis
    by (intro conjI a b t [THEN conjunct1] t [THEN conjunct2])
qed

section \<open>Refresh\<close>

text \<open>
  C5. Whatever makes the verification of a refresh token fail, the caller gets the same
  error: a string that is no token, a token signed with another secret, an expired token
  and a token whose subject has no row all give \<open>Unauthorized\<close> with the message
  \<open>Invalid refresh token\<close> and leave the table as it was; and every \<open>Unauthorized\<close>
  that \<open>refreshToken\<close> returns carries that message.
\<close>

theorem refreshToken_failures_uniform:
  "refreshToken cfg env db (Raw s) = (db, Inl (Unauthorized ''Invalid refresh token''))
   \<and> (k_s \<noteq> configService_get (JWT_REFRESH_SECRET cfg) (JWT_SECRET cfg) \<longrightarrow>
      refreshToken cfg env db (Jwt p_s k_s)
        = (db, Inl (Unauthorized ''Invalid refresh token'')))
   \<and> (exp p_x \<le> now env div 1000 \<longrightarrow>
      refreshToken cfg env db (Jwt p_x k_x)
        = (db, Inl (Unauthorized ''Invalid refresh token'')))
   \<and> (findUnique_id db (sub p_u) = None \<longrightarrow>
      refreshToken cfg env db (Jwt p_u k_u)
        = (db, Inl (Unauthorized ''Invalid refresh token'')))
   \<and> (snd (refreshToken cfg env db t) = Inl (Unauthorized m) \<longrightarrow>
      m = ''Invalid refresh token'' \<and> fst (refreshToken cfg env db t) = db)"
  by (auto simp add: refreshToken_def refreshToken_try_def JwtService_verify_def
      generateTokens_def Let_def split: sum.splits option.splits token.splits prod.splits)

theorem refreshToken_failures_uniform_witness:
  "''s1'' \<noteq> configService_get (JWT_REFRESH_SECRET example_cfg) (JWT_SECRET example_cfg)
   \<and> exp \<lparr>sub = 1, payload_email = ''alice@example.com'', payload_role = USER,
           iat = 0, exp = 1000\<rparr> \<le> now example_env div 1000
   \<and> findUnique_id (db_of alice)
        (sub \<lparr>sub = 7, payload_email = ''alice@example.com'', payload_role = USER,
              iat = 1000, exp = 605800\<rparr>) = None
   \<and> refreshToken example_cfg example_env (db_of alice) (Raw ''garbage'')
       = (db_of alice, Inl (Unauthorized ''Invalid refresh token''))
   \<and> refreshToken example_cfg example_env (db_of alice) example_access_token
       = (db_of alice, Inl (Unauthorized ''Invalid refresh token''))
   \<and> refreshToken example_cfg example_env (db_of alice)
        (Jwt \<lparr>sub = 1, payload_email = ''alice@example.com'', payload_role = USER,
              iat = 0, exp = 1000\<rparr> ''s2'')
       = (db_of alice, Inl (Unauthorized ''Invalid refresh token''))
   \<and> refreshToken example_cfg example_env (db_of alice)
        (Jwt \<lparr>sub = 7, payload_email = ''alice@example.com'', payload_role = USER,
              iat = 1000, exp = 605800\<rparr> ''s2'')
       = (db_of alice, Inl (Unauthorized ''Invalid refresh token''))"
proof -
  have a: "''s1'' \<noteq> configService_get (JWT_REFRESH_SECRET example_cfg) (JWT_SECRET example_cfg)"
    by (simp add: example_cfg_def configService_get_def)
  have b: "exp \<lparr>sub = 1, payload_email = ''alice@example.com'', payload_role = USER,
           iat = 0, exp = 1000\<rparr> \<le> now example_env div 1000"
    by (simp add: example_env_def)
  have c: "findUnique_id (db_of alice)
        (sub \<lparr>sub = 7, payload_email = ''alice@example.com'', payload_role = USER,
              iat = 1000, exp = 605800\<rparr>) = None"
    by (simp add: findUnique_id_def db_of_def alice_def)
  have d: "snd (refreshToken example_cfg example_env (db_of alice) (Raw ''garbage''))
             = Inl (Unauthorized ''Invalid refresh token'')"
    by (simp add: refreshToken_def refreshToken_try_def JwtService_verify_def)
  show ?thesis
    using refreshToken_failures_uniform [of example_cfg example_env "db_of alice" "''garbage''"
        "''s1''"
        "\<lparr>sub = 1, payload_email = ''alice@example.com'', payload_role = USER,
          iat = 1000, exp = 1900\<rparr>"
        "\<lparr>sub = 1, payload_email = ''alice@example.com'', payload_role = USER,
          iat = 0, exp = 1000\<rparr>" "''s2''"
        "\<lparr>sub = 7, payload_email = ''alice@example.com'', payload_role = USER,
          iat = 1000, exp = 605800\<rparr>" "''s2''" "Raw ''garbage''"
        "''Invalid refresh token''"] a b c d
    by (simp add: example_access_token_def)
qed

section \<open>Verifying a one-time code\<close>

lemma verifyOtp_success_db:
  assumes "verifyOtp cfg env db e otp = (db', Inr r)"
  shows "\<exists>u. findUnique_email db e = Some u \<and>
     db' = user_update env db (id' u)
       (\<lambda>u. u\<lparr>resetPasswordToken := None, resetPasswordExpires := None,
               lastLoginAt := Some (now env)\<rparr>)"
  using assms
  by (auto simp add: verifyOtp_def Let_def split: option.splits if_splits sum.splits)

lemma verifyOtp_alice_with_code:
  "verifyOtp example_cfg example_env (db_of (alice_with_code (Some 1300000)))
      ''alice@example.com'' ''4821''
   = (db_of (alice\<lparr>lastLoginAt := Some 1000000, updatedAt := 1000000\<rparr>),
      Inr (OtpResult ''success'' ''OTP verified successfully.''
             (OtpUser 1 ''alice@example.com'' USER True False True True)
             example_access_token example_refresh_token))"
proof -
  have f: "findUnique_email (db_of (alice_with_code (Some 1300000))) ''alice@example.com''
      = Some (alice_with_code (Some 1300000))"
    by (rule findUnique_email_alice) (simp add: alice_with_code_def alice_def)
  have g: "generateTokens example_cfg example_env (alice_with_code (Some 1300000))
      = Inr (example_access_token, example_refresh_token)"
    by (rule generateTokens_alice) (simp_all add: alice_with_code_def alice_def)
  have n: "now example_env = 1000000"
    by (simp add: example_env_def)
  show ?thesis
    by (simp add: verifyOtp_def f g n Let_def truthy_def expires_before_now_def)
      (simp add: alice_with_code_def alice_def db_of_def user_update_def stamped_def n)
qed

lemma verifyOtp_alice_again:
  "verifyOtp example_cfg example_env (db_of (alice\<lparr>lastLoginAt := Some 1000000, updatedAt := 1000000\<rparr>))
      ''alice@example.com'' ''4821''
   = (db_of (alice\<lparr>lastLoginAt := Some 1000000, updatedAt := 1000000\<rparr>),
      Inl (Unauthorized ''Invalid or expired OTP.''))"
proof -
  have f: "findUnique_email (db_of (alice\<lparr>lastLoginAt := Some 1000000, updatedAt := 1000000\<rparr>)) ''alice@example.com''
      = Some (alice\<lparr>lastLoginAt := Some 1000000, updatedAt := 1000000\<rparr>)"
    by (rule findUnique_email_alice) (simp add: alice_def)
  have t: "resetPasswordToken (alice\<lparr>lastLoginAt := Some 1000000, updatedAt := 1000000\<rparr>) = None"
    by (simp add: alice_def)
  show ?thesis
    by (simp add: verifyOtp_def f t truthy_def)
qed

text \<open>
  C2, as the code has it. When \<open>verifyOtp\<close> succeeds for a user, the code and the
  expiry of that user are null afterwards, and a second \<open>verifyOtp\<close> for the same
  email on the resulting table fails, with the same code or any other, at any time and
  under any configuration. The failure is \<open>Unauthorized\<close> with the message
  \<open>Invalid or expired OTP.\<close>, and the table stays as it is.
\<close>

theorem verifyOtp_single_use:
  assumes "verifyOtp cfg env db e otp = (db', Inr r)"
  shows "map_option challenge_slot (findUnique_email db' e) = Some (None, None)
     \<and> verifyOtp cfg_b env_b db' e otp_b
         = (db', Inl (Unauthorized ''Invalid or expired OTP.''))"
proof -
  from verifyOtp_success_db [OF assms] obtain u where
    u: "findUnique_email db e = Some u" and
    d: "db' = user_update env db (id' u)
       (\<lambda>u. u\<lparr>resetPasswordToken := None, resetPasswordExpires := None,
               lastLoginAt := Some (now env)\<rparr>)" by blast
  have f: "findUnique_email db' e = Some (u\<lparr>resetPasswordToken := None,
       resetPasswordExpires := None, lastLoginAt := Some (now env), updatedAt := now env\<rparr>)"
    unfolding d by (rule findUnique_email_user_update [OF u]) simp_all
  show ?thesis
    by (simp add: f challenge_slot_def verifyOtp_def truthy_def)
qed

theorem verifyOtp_single_use_witness:
  "verifyOtp example_cfg example_env (db_of (alice_with_code (Some 1300000)))
      ''alice@example.com'' ''4821''
   = (db_of (alice\<lparr>lastLoginAt := Some 1000000, updatedAt := 1000000\<rparr>),
      Inr (OtpResult ''success'' ''OTP verified successfully.''
             (OtpUser 1 ''alice@example.com'' USER True False True True)
             example_access_token example_refresh_token))
   \<and> map_option challenge_slot
        (findUnique_email (db_of (alice\<lparr>lastLoginAt := Some 1000000, updatedAt := 1000000\<rparr>)) ''alice@example.com'')
       = Some (None, None)
   \<and> verifyOtp example_cfg example_env (db_of (alice\<lparr>lastLoginAt := Some 1000000, updatedAt := 1000000\<rparr>))
        ''alice@example.com'' ''4821''
       = (db_of (alice\<lparr>lastLoginAt := Some 1000000, updatedAt := 1000000\<rparr>),
          Inl (Unauthorized ''Invalid or expired OTP.''))"
proof -
  note t = verifyOtp_single_use [OF verifyOtp_alice_with_code, of example_cfg example_env]
  show ?thesis
    by (intro conjI verifyOtp_alice_with_code t [THEN conjunct1] t [THEN conjunct2])
qed

text \<open>
  C2, as the claim words it, fails: Alice verifies the code 4821 with success, and the
  second call with the same code is neither a \<open>NotFound\<close> nor a \<open>BadRequest\<close>.
\<close>

theorem verifyOtp_second_call_counterexample:
  "snd (verifyOtp example_cfg example_env (db_of (alice_with_code (Some 1300000)))
          ''alice@example.com'' ''4821'')
     = Inr (OtpResult ''success'' ''OTP verified successfully.''
             (OtpUser 1 ''alice@example.com'' USER True False True True)
             example_access_token example_refresh_token)
   \<and> \<not> (is_NotFound
          (snd (verifyOtp example_cfg example_env
                  (fst (verifyOtp example_cfg example_env (db_of (alice_with_code (Some 1300000)))
                          ''alice@example.com'' ''4821''))
                  ''alice@example.com'' ''4821''))
        \<or> is_BadRequest
          (snd (verifyOtp example_cfg example_env
                  (fst (verifyOtp example_cfg example_env (db_of (alice_with_code (Some 1300000)))
                          ''alice@example.com'' ''4821''))
                  ''alice@example.com'' ''4821'')))"
  by (simp add: verifyOtp_alice_with_code verifyOtp_alice_again)

text \<open>
  C4. Let the slot of a user hold a code (a non-empty string) and an expiry that lies
  before the clock. Then \<open>verifyOtp\<close> with exactly that code fails with
  \<open>OTP expired.\<close>, and \<open>resetPassword\<close> with that code, on a request whose two
  passwords agree, fails with \<open>OTP expired. Please request a new one.\<close>; both return
  the table unchanged, so the code is still in the slot.
\<close>

theorem expired_code_rejected_slot_kept:
  assumes "resetPasswordToken u = Some c" and "c \<noteq> []"
    and "resetPasswordExpires u = Some t" and "t < now env"
  shows "(findUnique_email db e = Some u \<longrightarrow>
            verifyOtp cfg env db e c = (db, Inl (Unauthorized ''OTP expired.'')))
     \<and> (findUnique_email db (toLowerCase e) = Some u \<longrightarrow>
            resetPassword env db e c np np
              = (db, Inl (BadRequest ''OTP expired. Please request a new one.'')))"
  using assms
  by (simp add: verifyOtp_def resetPassword_def truthy_def expires_before_now_def)

theorem expired_code_rejected_slot_kept_witness:
  "resetPasswordToken (alice_with_code (Some 999999)) = Some ''4821''
   \<and> resetPasswordExpires (alice_with_code (Some 999999)) = Some 999999
   \<and> 999999 < now example_env
   \<and> findUnique_email (db_of (alice_with_code (Some 999999))) ''alice@example.com''
       = Some (alice_with_code (Some 999999))
   \<and> verifyOtp example_cfg example_env (db_of (alice_with_code (Some 999999)))
        ''alice@example.com'' ''4821''
       = (db_of (alice_with_code (Some 999999)), Inl (Unauthorized ''OTP expired.''))
   \<and> resetPassword example_env (db_of (alice_with_code (Some 999999)))
        ''alice@example.com'' ''4821'' ''N3wPassw0rd'' ''N3wPassw0rd''
       = (db_of (alice_with_code (Some 999999)),
          Inl (BadRequest ''OTP expired. Please request a new one.''))"
proof -
  have a: "resetPasswordToken (alice_with_code (Some 999999)) = Some ''4821''"
    and b: "''4821'' \<noteq> []"
    and c: "resetPasswordExpires (alice_with_code (Some 999999)) = Some 999999"
    and d: "999999 < now example_env"
    by (simp_all add: alice_with_code_def example_env_def)
  have f: "findUnique_email (db_of (alice_with_code (Some 999999))) ''alice@example.com''
       = Some (alice_with_code (Some 999999))"
    by (rule findUnique_email_alice) (simp add: alice_with_code_def alice_def)
  note t = expired_code_rejected_slot_kept [OF a b c d,
      of "db_of (alice_with_code (Some 999999))" "''alice@example.com''" example_cfg
         "''N3wPassw0rd''"]
  have v: "verifyOtp example_cfg example_env (db_of (alice_with_code (Some 999999)))
        ''alice@example.com'' ''4821''
       = (db_of (alice_with_code (Some 999999)), Inl (Unauthorized ''OTP expired.''))"
    using t f by simp
  have r: "resetPassword example_env (db_of (alice_with_code (Some 999999)))
        ''alice@example.com'' ''4821'' ''N3wPassw0rd'' ''N3wPassw0rd''
       = (db_of (alice_with_code (Some 999999)),
          Inl (BadRequest ''OTP expired. Please request a new one.''))"
    using t f by (simp add: toLowerCase_alice)
  show ?thesis
    by (intro conjI a c d f v r)
qed

section \<open>A code without an expiry\<close>

lemma findUnique_email_bob: "findUnique_email (db_of bob) ''bob@example.com'' = Some bob"
  using findUnique_email_db_of [of bob] by (simp add: bob_def)

lemma toLowerCase_bob: "toLowerCase ''bob@example.com'' = ''bob@example.com''"
  by code_simp

text \<open>
  C9. Let the slot of a user hold a code (a non-empty string) and a null expiry. Then
  verification with that code succeeds whatever the clock says: \<open>verifyOtp\<close> (when
  the tokens can be signed), \<open>verifyEmail\<close> for a user not yet verified, and
  \<open>resetPassword\<close> on a request whose two passwords agree. The clock is a free
  variable of the statement, so no later time makes the code expire.
\<close>

theorem null_expiry_never_expires:
  assumes "c \<noteq> []" and "resetPasswordExpires u = None"
  shows "(findUnique_email db e = Some u \<and> resetPasswordToken u = Some c
          \<and> generateTokens cfg env u = Inr tk \<longrightarrow>
            snd (verifyOtp cfg env db e c)
              = Inr (OtpResult ''success'' ''OTP verified successfully.''
                  (OtpUser (id' u) (email u) (role u) (emailVerified u) (mfaEnabled u)
                     (isEmail u) (isNotification u)) (fst tk) (snd tk)))
     \<and> (findUnique_email db (toLowerCase e) = Some u \<and> emailVerificationToken u = Some c
          \<and> \<not> emailVerified u \<longrightarrow>
            snd (verifyEmail env db e c)
              = Inr (StatusMessage ''success'' ''Email verified successfully''))
     \<and> (findUnique_email db (toLowerCase e) = Some u \<and> resetPasswordToken u = Some c \<longrightarrow>
            snd (resetPassword env db e c np np)
              = Inr (StatusMessage ''success'' ''Password reset successfully''))"
  using assms
  by (simp add: verifyOtp_def verifyEmail_def resetPassword_def truthy_def
      expires_before_now_def Let_def)

theorem null_expiry_never_expires_witness:
  "resetPasswordExpires bob = None
   \<and> findUnique_email (db_of bob) ''bob@example.com'' = Some bob
   \<and> resetPasswordToken bob = Some ''4821'' \<and> emailVerificationToken bob = Some ''4821''
   \<and> \<not> emailVerified bob
   \<and> snd (verifyOtp example_cfg (example_env\<lparr>now := 99999999999\<rparr>) (db_of bob)
             ''bob@example.com'' ''4821'')
       = Inr (OtpResult ''success'' ''OTP verified successfully.''
                (OtpUser 2 ''bob@example.com'' USER False False True True)
                (Jwt \<lparr>sub = 2, payload_email = ''bob@example.com'', payload_role = USER,
                      iat = 99999999, exp = 100000899\<rparr> ''s1'')
                (Jwt \<lparr>sub = 2, payload_email = ''bob@example.com'', payload_role = USER,
                      iat = 99999999, exp = 100604799\<rparr> ''s2''))
   \<and> snd (verifyEmail (example_env\<lparr>now := 99999999999\<rparr>) (db_of bob)
             ''bob@example.com'' ''4821'')
       = Inr (StatusMessage ''success'' ''Email verified successfully'')
   \<and> snd (resetPassword (example_env\<lparr>now := 99999999999\<rparr>) (db_of bob)
             ''bob@example.com'' ''4821'' ''N3wPassw0rd'' ''N3wPassw0rd'')
       = Inr (StatusMessage ''success'' ''Password reset successfully'')"
proof -
  let ?env = "example_env\<lparr>now := 99999999999\<rparr>"
  let ?a = "Jwt \<lparr>sub = 2, payload_email = ''bob@example.com'', payload_role = USER,
                      iat = 99999999, exp = 100000899\<rparr> ''s1''"
  let ?r = "Jwt \<lparr>sub = 2, payload_email = ''bob@example.com'', payload_role = USER,
                      iat = 99999999, exp = 100604799\<rparr> ''s2''"
  have a: "''4821'' \<noteq> []" and b: "resetPasswordExpires bob = None"
    and c: "resetPasswordToken bob = Some ''4821''"
    and d: "emailVerificationToken bob = Some ''4821''" and e: "\<not> emailVerified bob"
    by (simp_all add: bob_def alice_def)
  have g: "generateTokens example_cfg ?env bob = Inr (?a, ?r)"
    by (simp add: generateTokens_def JwtService_sign_def example_cfg_def example_env_def
        bob_def alice_def configService_get_def truthy_def Let_def)
  have p: "id' bob = 2" "email bob = ''bob@example.com''" "role bob = USER"
    "mfaEnabled bob = False" "isEmail bob = True" "isNotification bob = True"
    by (simp_all add: bob_def alice_def)
  note t = null_expiry_never_expires [OF a b, of "db_of bob" "''bob@example.com''"
      example_cfg ?env "(?a, ?r)" "''N3wPassw0rd''"]
  have v: "snd (verifyOtp example_cfg ?env (db_of bob) ''bob@example.com'' ''4821'')
       = Inr (OtpResult ''success'' ''OTP verified successfully.''
                (OtpUser 2 ''bob@example.com'' USER False False True True) ?a ?r)"
    using t [THEN conjunct1] findUnique_email_bob c g e p by simp
  have w: "snd (verifyEmail ?env (db_of bob) ''bob@example.com'' ''4821'')
       = Inr (StatusMessage ''success'' ''Email verified successfully'')"
    using t [THEN conjunct2, THEN conjunct1] findUnique_email_bob d e
    by (simp add: toLowerCase_bob)
  have x: "snd (resetPassword ?env (db_of bob) ''bob@example.com'' ''4821''
             ''N3wPassw0rd'' ''N3wPassw0rd'')
       = Inr (StatusMessage ''success'' ''Password reset successfully'')"
    using t [THEN conjunct2, THEN conjunct2] findUnique_email_bob c
    by (simp add: toLowerCase_bob)
  show ?thesis
    by (intro conjI b findUnique_email_bob c d e v w x)
qed

section \<open>Login\<close>

text \<open>
  C7. \<open>login\<close> checks in this order that the email has a row, that the row is
  verified and that the password matches the stored hash. Each failed check gives
  \<open>Unauthorized\<close> and returns the table unchanged, so nothing has been issued: an
  unknown email fails whatever the password is, and an unverified row fails before the
  password is compared. When all three pass and MFA is off (and the tokens can be
  signed), the response is \<open>success\<close> with the token pair of \<open>generateTokens\<close> and
  a projection of ten columns, none of them the password, \<open>lastLoginAt\<close> of the row is
  the clock, and the token pair does not depend on the stored hash.
\<close>

theorem login_checks_then_issues:
  "(findUnique_email db_n e_n = None \<longrightarrow>
      login cfg env db_n e_n pw_n fcm
        = (db_n, Inl (Unauthorized ''No account found with this email.'')))
   \<and> (findUnique_email db_v e_v = Some u_v \<and> \<not> emailVerified u_v \<longrightarrow>
      login cfg env db_v e_v pw_v fcm
        = (db_v, Inl (Unauthorized
             ''Email not verified. Please check your email for verification OTP.'')))
   \<and> (findUnique_email db_p e_p = Some u_p \<and> emailVerified u_p
        \<and> \<not> bcrypt_compare env pw_p (password u_p) \<longrightarrow>
      login cfg env db_p e_p pw_p fcm = (db_p, Inl (Unauthorized ''Incorrect password.'')))
   \<and> (findUnique_email db e = Some u \<and> emailVerified u \<and> bcrypt_compare env pw (password u)
        \<and> \<not> mfaEnabled u \<and> generateTokens cfg env u = Inr tk \<longrightarrow>
      snd (login cfg env db e pw fcm)
        = Inr (LoginResult ''success'' ''Successfully logged in.''
            (LoginUser (id' u) (email u) (firstName u) (lastName u) (role u)
               (emailVerified u) (mfaEnabled u) (isEmail u) (isNotification u)
               (profilePicture u))
            (fst tk) (snd tk))
      \<and> map_option lastLoginAt (findUnique_email (fst (login cfg env db e pw fcm)) e)
          = Some (Some (now env))
      \<and> generateTokens cfg env (u\<lparr>password := h\<rparr>) = Inr tk)"
proof -
  have a: "findUnique_email db e = Some u \<Longrightarrow>
     map_option lastLoginAt (findUnique_email
       (user_update env (if truthy fcm then user_update env db (id' u) (\<lambda>u. u\<lparr>fcmToken := fcm\<rparr>) else db)
          (id' u) (\<lambda>u. u\<lparr>lastLoginAt := Some (now env)\<rparr>)) e) = Some (Some (now env))"
    by (simp add: findUnique_email_user_update)
  show ?thesis
    using a
    by (simp add: login_def Let_def comparePasswords_def generateTokens_def)
qed

theorem login_checks_then_issues_witness:
  "findUnique_email empty_db ''alice@example.com'' = None
   \<and> findUnique_email (db_of bob) ''bob@example.com'' = Some bob \<and> \<not> emailVerified bob
   \<and> findUnique_email (db_of alice) ''alice@example.com'' = Some alice \<and> emailVerified alice
   \<and> \<not> bcrypt_compare example_env ''guess'' (password alice)
   \<and> bcrypt_compare example_env ''Passw0rd!'' (password alice) \<and> \<not> mfaEnabled alice
   \<and> login example_cfg example_env empty_db ''alice@example.com'' ''Passw0rd!'' None
       = (empty_db, Inl (Unauthorized ''No account found with this email.''))
   \<and> login example_cfg example_env (db_of bob) ''bob@example.com'' ''Passw0rd!'' None
       = (db_of bob, Inl (Unauthorized
            ''Email not verified. Please check your email for verification OTP.''))
   \<and> login example_cfg example_env (db_of alice) ''alice@example.com'' ''guess'' None
       = (db_of alice, Inl (Unauthorized ''Incorrect password.''))
   \<and> snd (login example_cfg example_env (db_of alice) ''alice@example.com'' ''Passw0rd!'' None)
       = Inr (LoginResult ''success'' ''Successfully logged in.''
            (LoginUser 1 ''alice@example.com'' (Some ''Alice'') (Some ''A'') USER True False
               True True None)
            example_access_token example_refresh_token)
   \<and> map_option lastLoginAt
        (findUnique_email
           (fst (login example_cfg example_env (db_of alice) ''alice@example.com''
                   ''Passw0rd!'' None))
           ''alice@example.com'') = Some (Some 1000000)"
proof -
  have n: "findUnique_email empty_db ''alice@example.com'' = None"
    by (simp add: findUnique_email_def empty_db_def)
  have fa: "findUnique_email (db_of alice) ''alice@example.com'' = Some alice"
    by (rule findUnique_email_alice) (simp add: alice_def)
  have p: "\<not> emailVerified bob" "emailVerified alice"
    "\<not> bcrypt_compare example_env ''guess'' (password alice)"
    "bcrypt_compare example_env ''Passw0rd!'' (password alice)" "\<not> mfaEnabled alice"
    by (simp_all add: bob_def alice_def example_env_def)
  have g: "generateTokens example_cfg example_env alice
             = Inr (example_access_token, example_refresh_token)"
    by (rule generateTokens_alice) (simp_all add: alice_def)
  have q: "id' alice = 1" "email alice = ''alice@example.com''" "firstName alice = Some ''Alice''"
    "lastName alice = Some ''A''" "role alice = USER" "isEmail alice" "isNotification alice"
    "profilePicture alice = None" "now example_env = 1000000"
    by (simp_all add: alice_def example_env_def)
  note t = login_checks_then_issues [of empty_db "''alice@example.com''" example_cfg example_env
      "''Passw0rd!''" None "db_of bob" "''bob@example.com''" bob "''Passw0rd!''"
      "db_of alice" "''alice@example.com''" alice "''guess''"
      "db_of alice" "''alice@example.com''" alice "''Passw0rd!''"
      "(example_access_token, example_refresh_token)" "''x''"]
  have r1: "login example_cfg example_env empty_db ''alice@example.com'' ''Passw0rd!'' None
       = (empty_db, Inl (Unauthorized ''No account found with this email.''))"
    using t [THEN conjunct1] n by simp
  have r2: "login example_cfg example_env (db_of bob) ''bob@example.com'' ''Passw0rd!'' None
       = (db_of bob, Inl (Unauthorized
            ''Email not verified. Please check your email for verification OTP.''))"
    using t [THEN conjunct2, THEN conjunct1] findUnique_email_bob p by simp
  have r3: "login example_cfg example_env (db_of alice) ''alice@example.com'' ''guess'' None
       = (db_of alice, Inl (Unauthorized ''Incorrect password.''))"
    using t [THEN conjunct2, THEN conjunct2, THEN conjunct1] fa p by simp
  have r4: "snd (login example_cfg example_env (db_of alice) ''alice@example.com''
                  ''Passw0rd!'' None)
       = Inr (LoginResult ''success'' ''Successfully logged in.''
            (LoginUser 1 ''alice@example.com'' (Some ''Alice'') (Some ''A'') USER True False
               True True None)
            example_access_token example_refresh_token)"
    and r5: "map_option lastLoginAt
        (findUnique_email
           (fst (login example_cfg example_env (db_of alice) ''alice@example.com''
                   ''Passw0rd!'' None))
           ''alice@example.com'') = Some (Some 1000000)"
    using t [THEN conjunct2, THEN conjunct2, THEN conjunct2] fa p g q by simp_all
  show ?thesis
    by (intro conjI n findUnique_email_bob fa p r1 r2 r3 r4 r5)
qed

section \<open>Logout\<close>

lemma RedisService_set_entry:
  assumes "js_truthy ttl" "ToNumber ttl = Some n" "0 \<le> n"
  shows "RedisService_set env c key v (Some ttl) key
           = Some \<lparr>val = v, expiresAt = At (now env + n * 1000)\<rparr>"
  using assms
  by (simp add: RedisService_set_def cleanupExpired_def expiry_less_def Let_def)

lemma logout_entry:
  assumes "JWT_EXPIRATION cfg = None"
  shows "fst (logout cfg env c uid t) (Blacklist t)
           = Some \<lparr>val = ''true'', expiresAt = At (now env + 3600 * 1000)\<rparr>"
  using assms RedisService_set_entry [of "Num 3600" 3600 env c "Blacklist t" "''true''"]
  by (simp add: logout_def configService_get_def js_truthy_def ToNumber_def)

lemma generateTokens_access:
  assumes "generateTokens cfg env u = Inr (a, r)"
  shows "a = Jwt \<lparr>sub = id' u, payload_email = email u, payload_role = role u,
                  iat = now env div 1000,
                  exp = now env div 1000 + configService_get (JWT_EXPIRES_IN cfg) 900\<rparr>
               (JWT_SECRET cfg)"
  using assms
  by (auto simp add: generateTokens_def JwtService_sign_def Let_def configService_get_def
      split: if_splits)

lemma generateTokens_alice_7d:
  "generateTokens example_cfg_7d example_env alice
     = Inr (example_access_token_7d, example_refresh_token)"
  by (simp add: generateTokens_def JwtService_sign_def example_cfg_7d_def example_cfg_def
      example_env_def alice_def example_access_token_7d_def example_refresh_token_def
      configService_get_def truthy_def Let_def)

lemma AuthController_logout_without_token:
  "AuthController_logout cfg env c uid None = (c, Inl (Unauthorized ''Token not found''))"
  "replace_Bearer h = Raw [] \<Longrightarrow>
   AuthController_logout cfg env c uid (Some h) = (c, Inl (Unauthorized ''Token not found''))"
  "replace_Bearer h \<noteq> Raw [] \<Longrightarrow>
   snd (AuthController_logout cfg env c uid (Some h))
     = Inr (StatusMessage ''success'' ''Logged out successfully'')"
  by (simp_all add: AuthController_logout_def logout_def Let_def)

text \<open>
  C1. The entry that logout writes should live as long as the token it blacklists has
  left to live, by the token's own \<open>exp\<close>. The code does not do that: it takes the
  time to live from \<open>JWT_EXPIRATION\<close>, 3600 seconds when the key is not set, while
  tokens are signed for \<open>JWT_EXPIRES_IN\<close>. Let \<open>JWT_EXPIRATION\<close> be unset and let a
  token of \<open>generateTokens\<close> be logged out. Logout returns success and the token is on
  the blacklist at once, with an expiry 3600 seconds after the clock, which is not the
  expiry the token's own \<open>exp\<close> gives. At any later time that is more than 3600
  seconds after the logout and before the token's \<open>exp\<close>, the token is off the
  blacklist and still verifies.
\<close>

theorem logout_entry_expires_before_token:
  assumes "JWT_EXPIRATION cfg = None"
    and "generateTokens cfg env u = Inr (a, r)"
    and "now env_o + 3600 * 1000 < now env_c"
    and "now env_c div 1000 < now env div 1000 + configService_get (JWT_EXPIRES_IN cfg) 900"
  shows "snd (AuthController_logout cfg env_o c uid (Some (Bearer a)))
           = Inr (StatusMessage ''success'' ''Logged out successfully'')
     \<and> snd (isTokenBlacklisted env_o
              (fst (AuthController_logout cfg env_o c uid (Some (Bearer a)))) a)
     \<and> \<not> snd (isTokenBlacklisted env_c
              (fst (AuthController_logout cfg env_o c uid (Some (Bearer a)))) a)
     \<and> JwtService_verify cfg env_c a None
           = Inr \<lparr>sub = id' u, payload_email = email u, payload_role = role u,
                  iat = now env div 1000,
                  exp = now env div 1000 + configService_get (JWT_EXPIRES_IN cfg) 900\<rparr>
     \<and> map_option expiresAt
          (fst (AuthController_logout cfg env_o c uid (Some (Bearer a))) (Blacklist a))
         = Some (At (now env_o + 3600 * 1000))
     \<and> map_option expiresAt
          (fst (AuthController_logout cfg env_o c uid (Some (Bearer a))) (Blacklist a))
         \<noteq> spec_logout_expiresAt env_o a"
proof -
  let ?d = "configService_get (JWT_EXPIRES_IN cfg) 900"
  let ?p = "\<lparr>sub = id' u, payload_email = email u, payload_role = role u,
             iat = now env div 1000, exp = now env div 1000 + ?d\<rparr>"
  have a: "a = Jwt ?p (JWT_SECRET cfg)"
    using assms(2) by (rule generateTokens_access)
  have l: "AuthController_logout cfg env_o c uid (Some (Bearer a)) = logout cfg env_o c uid a"
    by (simp add: AuthController_logout_def replace_Bearer_def a)
  have e: "fst (logout cfg env_o c uid a) (Blacklist a)
             = Some \<lparr>val = ''true'', expiresAt = At (now env_o + 3600 * 1000)\<rparr>"
    using assms(1) by (rule logout_entry)
  have r: "snd (logout cfg env_o c uid a)
             = Inr (StatusMessage ''success'' ''Logged out successfully'')"
    by (simp add: logout_def Let_def)
  have b1: "snd (isTokenBlacklisted env_o (fst (logout cfg env_o c uid a)) a)"
    by (simp add: isTokenBlacklisted_def RedisService_get_def e expiry_less_def truthy_def)
  have b2: "\<not> snd (isTokenBlacklisted env_c (fst (logout cfg env_o c uid a)) a)"
    using assms(3)
    by (simp add: isTokenBlacklisted_def RedisService_get_def e expiry_less_def truthy_def)
  have v: "JwtService_verify cfg env_c a None = Inr ?p"
    using assms(4) by (simp add: JwtService_verify_def a configService_get_def)
  have "now env_o div 1000 + 3600 \<le> now env_c div 1000"
    using assms(3) by linarith
  then have "3600 < now env div 1000 + ?d - now env_o div 1000"
    using assms(4) by linarith
  then have s: "Some (At (now env_o + 3600 * 1000)) \<noteq> spec_logout_expiresAt env_o a"
    by (simp add: spec_logout_expiresAt_def remaining_validity_def a)
  show ?thesis
    unfolding l using r b1 b2 v s by (simp add: e)
qed

theorem logout_entry_expires_before_token_witness:
  "JWT_EXPIRATION example_cfg_7d = None
   \<and> generateTokens example_cfg_7d example_env alice
       = Inr (example_access_token_7d, example_refresh_token)
   \<and> now example_env + 3600 * 1000 < now example_env_hour_later
   \<and> now example_env_hour_later div 1000
       < now example_env div 1000 + configService_get (JWT_EXPIRES_IN example_cfg_7d) 900
   \<and> snd (AuthController_logout example_cfg_7d example_env Map.empty 1
            (Some (Bearer example_access_token_7d)))
       = Inr (StatusMessage ''success'' ''Logged out successfully'')
   \<and> snd (isTokenBlacklisted example_env
            (fst (AuthController_logout example_cfg_7d example_env Map.empty 1
                    (Some (Bearer example_access_token_7d))))
            example_access_token_7d)
   \<and> \<not> snd (isTokenBlacklisted example_env_hour_later
            (fst (AuthController_logout example_cfg_7d example_env Map.empty 1
                    (Some (Bearer example_access_token_7d))))
            example_access_token_7d)
   \<and> JwtService_verify example_cfg_7d example_env_hour_later example_access_token_7d None
       = Inr \<lparr>sub = 1, payload_email = ''alice@example.com'', payload_role = USER,
              iat = 1000, exp = 605800\<rparr>
   \<and> map_option expiresAt
        (fst (AuthController_logout example_cfg_7d example_env Map.empty 1
                (Some (Bearer example_access_token_7d)))
           (Blacklist example_access_token_7d))
       = Some (At 4600000)
   \<and> spec_logout_expiresAt example_env example_access_token_7d = Some (At 605800000)"
proof -
  have a: "JWT_EXPIRATION example_cfg_7d = None"
    by (simp add: example_cfg_7d_def example_cfg_def)
  have c: "now example_env + 3600 * 1000 < now example_env_hour_later"
    by (simp add: example_env_hour_later_def example_env_def)
  have d: "now example_env_hour_later div 1000
       < now example_env div 1000 + configService_get (JWT_EXPIRES_IN example_cfg_7d) 900"
    by (simp add: example_env_hour_later_def example_env_def example_cfg_7d_def
        configService_get_def)
  note t = logout_entry_expires_before_token [OF a generateTokens_alice_7d c d,
      of Map.empty 1]
  have p: "id' alice = 1" "email alice = ''alice@example.com''" "role alice = USER"
    "now example_env = 1000000"
    "configService_get (JWT_EXPIRES_IN example_cfg_7d) (900::int) = 604800"
    by (simp_all add: alice_def example_env_def example_cfg_7d_def configService_get_def)
  have v: "JwtService_verify example_cfg_7d example_env_hour_later example_access_token_7d None
       = Inr \<lparr>sub = 1, payload_email = ''alice@example.com'', payload_role = USER,
              iat = 1000, exp = 605800\<rparr>"
    using t by (simp add: p)
  have x: "map_option expiresAt
        (fst (AuthController_logout example_cfg_7d example_env Map.empty 1
                (Some (Bearer example_access_token_7d)))
           (Blacklist example_access_token_7d))
       = Some (At 4600000)"
    using t by (simp add: p)
  have s: "spec_logout_expiresAt example_env example_access_token_7d = Some (At 605800000)"
    by (simp add: spec_logout_expiresAt_def remaining_validity_def example_access_token_7d_def p)
  show ?thesis
    by (intro conjI a generateTokens_alice_7d c d t [THEN conjunct1]
        t [THEN conjunct2, THEN conjunct1] t [THEN conjunct2, THEN conjunct2, THEN conjunct1]
        v x s)
qed

section \<open>What a call keeps\<close>

lemma find_map_email:
  assumes "\<And>x. email (g x) = email x"
  shows "find (\<lambda>u. email u = e) (map g xs) = map_option g (find (\<lambda>u. email u = e) xs)"
  using assms by (induction xs) auto

lemma findUnique_email_update_any:
  assumes "\<And>x. email (f x) = email x"
  shows "findUnique_email (user_update env db i f) e
           = map_option (\<lambda>u. if id' u = i then stamped env f u else u) (findUnique_email db e)"
  using assms by (simp add: findUnique_email_def user_update_def find_map_email stamped_def)

lemma verification_state_update:
  assumes "\<And>x. email (f x) = email x" "\<And>x. status (f x) = status x"
    "\<And>x. emailVerified (f x) = emailVerified x"
  shows "verification_state (user_update env db i f) e = verification_state db e"
  using assms
  by (cases "findUnique_email db e")
    (simp_all add: findUnique_email_update_any verification_state_def stamped_def)

lemma find_append_Some: "find P xs = Some x \<Longrightarrow> find P (xs @ ys) = Some x"
  by (induction xs) (auto split: if_splits)

lemma verification_state_create:
  "verification_state db e = Some s \<Longrightarrow> verification_state (fst (user_create db v)) e = Some s"
  by (auto simp add: verification_state_def findUnique_email_def user_create_def Let_def
      find_append_Some)

lemma verification_state_serial:
  "verification_state (db\<lparr>users_id_seq := n\<rparr>) e = verification_state db e"
  by (simp add: verification_state_def findUnique_email_def)

lemma call_keeps_verification_state:
  assumes "\<And>e_in otp. r \<noteq> VerifyEmail e_in otp" and "verification_state db e = Some s"
  shows "verification_state (fst (AuthService_call cfg env db r)) e = Some s"
proof (cases r)
  case (Login e_in pw fcm)
  then show ?thesis using assms(2)
    by (simp add: login_def Let_def verification_state_update
        split: option.splits sum.splits)
next
  case (SendOtp e_in)
  then show ?thesis using assms(2)
    by (simp add: sendOtp_def Let_def verification_state_update split: option.splits)
next
  case (VerifyOtp e_in otp)
  then show ?thesis using assms(2)
    by (simp add: verifyOtp_def Let_def verification_state_update
        split: option.splits sum.splits)
next
  case (Register e_in pw fn ln ph)
  then show ?thesis using assms(2)
    by (simp add: register_def Let_def verification_state_create split: option.splits)
next
  case (VerifyEmail e_in otp)
  then show ?thesis using assms(1) by simp
next
  case (ResendEmailVerificationOTP e_in)
  then show ?thesis using assms(2)
    by (simp add: resendEmailVerificationOTP_def Let_def verification_state_update
        split: option.splits)
next
  case (ChangePassword i cur new)
  then show ?thesis using assms(2)
    by (simp add: changePassword_def Let_def verification_state_update split: option.splits)
next
  case (ForgotPassword e_in)
  then show ?thesis using assms(2)
    by (simp add: forgotPassword_def Let_def verification_state_update split: option.splits)
next
  case (ResetPassword e_in otp np cp)
  then show ?thesis using assms(2)
    by (simp add: resetPassword_def Let_def verification_state_update split: option.splits)
next
  case (RefreshToken t)
  then show ?thesis using assms(2)
    by (simp add: refreshToken_def refreshToken_try_def Let_def verification_state_update
        split: option.splits sum.splits prod.splits)
next
  case (UpdateGoogleId i gid pic)
  then show ?thesis using assms(2)
    by (simp add: updateGoogleId_def set_googleId_def verification_state_update
        split: option.splits)
next
  case (CreateGoogleUser e_in n gid pic ro v)
  then show ?thesis using assms(2)
    by (simp add: createGoogleUser_def Let_def verification_state_create
        verification_state_serial split: option.splits)
qed

lemma find_Some_set: "find P xs = Some x \<Longrightarrow> x \<in> set xs \<and> P x"
  by (induction xs) (auto split: if_splits)

lemma distinct_ids_same_row:
  assumes "distinct (map id' xs)" "u \<in> set xs" "v \<in> set xs" "id' u = id' v"
  shows "u = v"
  using assms by (auto simp add: distinct_map inj_on_def)

lemma verifyEmail_unchanged_or_verified:
  "fst (verifyEmail env db e_in otp) = db
   \<or> snd (verifyEmail env db e_in otp)
       = Inr (StatusMessage ''success'' ''Email verified successfully'')"
  by (simp add: verifyEmail_def split: option.splits)

lemma verifyEmail_keeps_others:
  assumes "wf_db db" and "verification_state db e = Some s"
    and "\<not> verifies env db e (VerifyEmail e_in otp)"
  shows "verification_state (fst (verifyEmail env db e_in otp)) e = Some s"
proof (cases "findUnique_email db (toLowerCase e_in)")
  case None
  then show ?thesis using assms(2) by (simp add: verifyEmail_def)
next
  case (Some v)
  from assms(2) obtain u where u: "findUnique_email db e = Some u"
    and s: "s = (status u, emailVerified u)"
    by (auto simp add: verification_state_def)
  show ?thesis
  proof (cases "toLowerCase e_in = e")
    case True
    with assms(3) have "snd (verifyEmail env db e_in otp)
        \<noteq> Inr (StatusMessage ''success'' ''Email verified successfully'')"
      by simp
    then have "fst (verifyEmail env db e_in otp) = db"
      using verifyEmail_unchanged_or_verified [of env db e_in otp] by blast
    then show ?thesis using assms(2) by simp
  next
    case False
    have "u \<in> set (users db)" "email u = e" "v \<in> set (users db)" "email v = toLowerCase e_in"
      using u Some find_Some_set [of "\<lambda>u. email u = e" "users db" u]
        find_Some_set [of "\<lambda>u. email u = toLowerCase e_in" "users db" v]
      by (simp_all add: findUnique_email_def)
    with False assms(1) have ne: "id' u \<noteq> id' v"
      using distinct_ids_same_row [of "users db" u v] by (auto simp add: wf_db_def)
    show ?thesis
      using u s ne
      by (simp add: verifyEmail_def Some verification_state_def findUnique_email_update_any
          stamped_def)
  qed
qed

lemma map_id_update:
  assumes "\<And>x. id' (f x) = id' x"
  shows "map id' (map (\<lambda>u. if id' u = i then f u else u) xs) = map id' xs"
  using assms by (induction xs) auto

lemma list_all_id_update:
  assumes "\<And>x. id' (f x) = id' x"
  shows "list_all (\<lambda>u. id' u < n) (map (\<lambda>u. if id' u = i then f u else u) xs)
           = list_all (\<lambda>u. id' u < n) xs"
  using assms by (induction xs) auto

lemma wf_db_update:
  assumes "\<And>x. id' (f x) = id' x" "wf_db db"
  shows "wf_db (user_update env db i f)"
proof -
  have a: "users (user_update env db i f)
             = map (\<lambda>u. if id' u = i then stamped env f u else u) (users db)"
    and b: "users_id_seq (user_update env db i f) = users_id_seq db"
    by (simp_all add: user_update_def)
  have s: "\<And>x. id' (stamped env f x) = id' x"
    using assms(1) by (simp add: stamped_def)
  show ?thesis
    using assms(2) unfolding wf_db_def a b
    by (simp only: map_id_update [OF s] list_all_id_update [OF s])
qed

lemma wf_db_create: "wf_db db \<Longrightarrow> wf_db (fst (user_create db v))"
  by (auto simp add: wf_db_def user_create_def Let_def list_all_iff)

lemma wf_db_serial: "wf_db db \<Longrightarrow> wf_db (db\<lparr>users_id_seq := users_id_seq db + 1\<rparr>)"
  by (auto simp add: wf_db_def list_all_iff)

lemma call_keeps_wf_db: "wf_db db \<Longrightarrow> wf_db (fst (AuthService_call cfg env db r))"
proof (cases r)
  case (Login e_in pw fcm)
  assume "wf_db db" with Login show ?thesis
    by (simp add: login_def Let_def wf_db_update split: option.splits sum.splits)
next
  case (SendOtp e_in)
  assume "wf_db db" with SendOtp show ?thesis
    by (simp add: sendOtp_def Let_def wf_db_update split: option.splits)
next
  case (VerifyOtp e_in otp)
  assume "wf_db db" with VerifyOtp show ?thesis
    by (simp add: verifyOtp_def Let_def wf_db_update split: option.splits sum.splits)
next
  case (Register e_in pw fn ln ph)
  assume "wf_db db" with Register show ?thesis
    by (simp add: register_def Let_def wf_db_create split: option.splits)
next
  case (VerifyEmail e_in otp)
  assume "wf_db db" with VerifyEmail show ?thesis
    by (simp add: verifyEmail_def Let_def wf_db_update split: option.splits)
next
  case (ResendEmailVerificationOTP e_in)
  assume "wf_db db" with ResendEmailVerificationOTP show ?thesis
    by (simp add: resendEmailVerificationOTP_def Let_def wf_db_update split: option.splits)
next
  case (ChangePassword i cur new)
  assume "wf_db db" with ChangePassword show ?thesis
    by (simp add: changePassword_def Let_def wf_db_update split: option.splits)
next
  case (ForgotPassword e_in)
  assume "wf_db db" with ForgotPassword show ?thesis
    by (simp add: forgotPassword_def Let_def wf_db_update split: option.splits)
next
  case (ResetPassword e_in otp np cp)
  assume "wf_db db" with ResetPassword show ?thesis
    by (simp add: resetPassword_def Let_def wf_db_update split: option.splits)
next
  case (RefreshToken t)
  assume "wf_db db" with RefreshToken show ?thesis
    by (simp add: refreshToken_def refreshToken_try_def Let_def wf_db_update
        split: option.splits sum.splits prod.splits)
next
  case (UpdateGoogleId i gid pic)
  assume "wf_db db" with UpdateGoogleId show ?thesis
    by (simp add: updateGoogleId_def set_googleId_def wf_db_update split: option.splits)
next
  case (CreateGoogleUser e_in n gid pic ro v)
  assume "wf_db db" with CreateGoogleUser show ?thesis
    by (simp add: createGoogleUser_def Let_def wf_db_create wf_db_serial
        split: option.splits)
qed

lemma step_keeps_verification_state:
  assumes "wf_db db" "verification_state db e = Some s" "\<not> verifies env db e r"
  shows "verification_state (fst (AuthService_call cfg env db r)) e = Some s"
proof (cases "\<exists>e_in otp. r = VerifyEmail e_in otp")
  case True
  then obtain e_in otp where r: "r = VerifyEmail e_in otp" by blast
  show ?thesis
    unfolding r using assms verifyEmail_keeps_others [of db e s env e_in otp]
    by (simp add: r)
next
  case False
  then show ?thesis using assms(2) call_keeps_verification_state by blast
qed

lemma run_keeps_verification_state:
  "wf_db db \<Longrightarrow> verification_state db e = Some s \<Longrightarrow> never_verified cfg db e cs \<Longrightarrow>
   verification_state (run cfg db cs) e = Some s"
proof (induction cs arbitrary: db)
  case Nil
  then show ?case by simp
next
  case (Cons c cs)
  have "wf_db (fst (AuthService_call cfg (fst c) db (snd c)))"
    using Cons.prems(1) by (rule call_keeps_wf_db)
  moreover have "verification_state (fst (AuthService_call cfg (fst c) db (snd c))) e = Some s"
    using Cons.prems by (intro step_keeps_verification_state) simp_all
  moreover have "never_verified cfg (fst (AuthService_call cfg (fst c) db (snd c))) e cs"
    using Cons.prems(3) by simp
  ultimately show ?case
    using Cons.IH by simp
qed

section \<open>Registration\<close>

lemma register_Conflict_after:
  assumes "register env_a db e_a pw_a fn_a ln_a ph_a = (db_a, res)"
    and "toLowerCase e_b = toLowerCase e_a"
  shows "register env_b db_a e_b pw_b fn_b ln_b ph_b
           = (db_a, Inl (Conflict ''User with this email already exists''))"
proof (cases "findUnique_email db (toLowerCase e_a)")
  case None
  have "findUnique_email db_a (toLowerCase e_a) \<noteq> None"
    using assms(1) None findUnique_email_user_create [of db "toLowerCase e_a"]
    by (auto simp add: register_def Let_def)
  then show ?thesis
    using assms(2) by (auto simp add: register_def)
next
  case (Some u)
  then have "db_a = db" using assms(1) by (simp add: register_def)
  then show ?thesis using Some assms(2) by (simp add: register_def)
qed

lemma register_pending:
  assumes "register env_a db e_a pw_a fn_a ln_a ph_a = (db_a, Inr r)"
  shows "verification_state db_a (toLowerCase e_a) = Some (PENDING_VERIFICATION, False)"
proof (cases "findUnique_email db (toLowerCase e_a)")
  case None
  then show ?thesis
    using assms findUnique_email_user_create [of db "toLowerCase e_a"]
    by (auto simp add: register_def Let_def verification_state_def)
next
  case (Some u)
  then show ?thesis using assms by (simp add: register_def)
qed

lemma register_wf_db:
  assumes "wf_db db" "register env_a db e_a pw_a fn_a ln_a ph_a = (db_a, res)"
  shows "wf_db db_a"
  using call_keeps_wf_db [OF assms(1), of cfg env_a "Register e_a pw_a fn_a ln_a ph_a"] assms(2)
  by simp

lemma verifyEmail_activates:
  assumes "snd (verifyEmail env db e otp)
             = Inr (StatusMessage ''success'' ''Email verified successfully'')"
  shows "verification_state (fst (verifyEmail env db e otp)) (toLowerCase e) = Some (ACTIVE, True)"
proof (cases "findUnique_email db (toLowerCase e)")
  case None
  then show ?thesis using assms by (simp add: verifyEmail_def)
next
  case (Some u)
  have "fst (verifyEmail env db e otp) = user_update env db (id' u)
               (\<lambda>u. u\<lparr>emailVerified := True, status := ACTIVE,
                       emailVerificationToken := None, resetPasswordExpires := None,
                       updatedAt := now env\<rparr>)"
    using assms by (simp add: verifyEmail_def Some split: if_splits)
  then show ?thesis
    using findUnique_email_user_update [OF Some refl,
        of "\<lambda>u. u\<lparr>emailVerified := True, status := ACTIVE,
                       emailVerificationToken := None, resetPasswordExpires := None,
                       updatedAt := now env\<rparr>"]
    by (simp add: verification_state_def)
qed

lemma toLowerCase_Bob: "toLowerCase ''Bob@Example.com'' = ''bob@example.com''"
  by code_simp

lemma trim_Bob: "trim ''Bob B'' = ''Bob B''"
  by code_simp

lemma generateOTP_later: "generateOTP example_env_later = ''7350''"
  by (simp add: generateOTP_def toString_def example_env_later_def toString_nat_ge10
      toString_nat_lt10 digit_char_values)

lemma register_bob:
  "register example_env empty_db ''Bob@Example.com'' ''Passw0rd!'' ''Bob'' ''B'' None
     = (\<lparr>users = [bob_registered], users_id_seq = 2\<rparr>,
        Inr (RegisterResult ''success''
          ''Registration successful. Please check your email for verification OTP.'' 1))"
proof -
  have n: "findUnique_email empty_db ''bob@example.com'' = None"
    by (simp add: findUnique_email_def empty_db_def)
  show ?thesis
    by (simp add: register_def toLowerCase_Bob n Let_def trim_Bob
        generateOTP_example user_create_def)
      (simp add: users_defaults_def example_env_def empty_db_def bob_registered_def)
qed

lemma db_registered_eq: "db_registered = \<lparr>users = [bob_registered], users_id_seq = 2\<rparr>"
  by (simp add: db_registered_def register_bob)

lemma find_db_registered: "findUnique_email db_registered ''bob@example.com'' = Some bob_registered"
  by (simp add: db_registered_eq findUnique_email_def bob_registered_def)

lemma db_reset_requested_eq:
  "db_reset_requested
     = \<lparr>users = [bob_registered\<lparr>resetPasswordToken := Some ''7350'',
                    resetPasswordExpires := Some 1660000, updatedAt := 1060000\<rparr>], users_id_seq = 2\<rparr>"
proof -
  have n: "now example_env_later = 1060000"
    by (simp add: example_env_later_def)
  show ?thesis
    by (simp add: db_reset_requested_def forgotPassword_def toLowerCase_bob find_db_registered
        Let_def generateOTP_later n)
      (simp add: user_update_def db_registered_eq stamped_def n)
qed

lemma find_db_reset_requested:
  "findUnique_email db_reset_requested ''bob@example.com''
     = Some (bob_registered\<lparr>resetPasswordToken := Some ''7350'',
                            resetPasswordExpires := Some 1660000, updatedAt := 1060000\<rparr>)"
  by (simp add: db_reset_requested_eq findUnique_email_def bob_registered_def)

lemma wf_empty_db: "wf_db empty_db"
  by (simp add: wf_db_def empty_db_def)

text \<open>
  C8. Let a \<open>register\<close> call succeed on a table whose ids are distinct. A second
  \<open>register\<close> whose email is the same up to the case of its letters fails with
  \<open>Conflict\<close> and returns the table unchanged. The row of the first call is
  \<open>PENDING_VERIFICATION\<close> with \<open>emailVerified\<close> false, and it stays so through
  every run of calls of the service in which no \<open>verifyEmail\<close> for that email
  succeeds; a \<open>verifyEmail\<close> that succeeds after such a run makes it \<open>ACTIVE\<close>
  and verified.
\<close>

theorem register_twice_conflict_first_pending:
  assumes "wf_db db"
    and "register env_a db e_a pw_a fn_a ln_a ph_a = (db_a, Inr r)"
    and "toLowerCase e_b = toLowerCase e_a"
  shows "register env_b db_a e_b pw_b fn_b ln_b ph_b
           = (db_a, Inl (Conflict ''User with this email already exists''))
     \<and> verification_state db_a (toLowerCase e_a) = Some (PENDING_VERIFICATION, False)
     \<and> (never_verified cfg db_a (toLowerCase e_a) cs \<longrightarrow>
          verification_state (run cfg db_a cs) (toLowerCase e_a)
            = Some (PENDING_VERIFICATION, False))
     \<and> (snd (verifyEmail env_c (run cfg db_a cs) e_a otp)
           = Inr (StatusMessage ''success'' ''Email verified successfully'') \<longrightarrow>
          verification_state (fst (verifyEmail env_c (run cfg db_a cs) e_a otp)) (toLowerCase e_a)
            = Some (ACTIVE, True))"
  using register_Conflict_after [OF assms(2,3)] register_pending [OF assms(2)]
    run_keeps_verification_state [OF register_wf_db [OF assms(1,2)] register_pending [OF assms(2)]]
    verifyEmail_activates
  by simp

theorem register_twice_conflict_first_pending_witness:
  "wf_db empty_db
   \<and> register example_env empty_db ''Bob@Example.com'' ''Passw0rd!'' ''Bob'' ''B'' None
       = (db_registered,
          Inr (RegisterResult ''success''
            ''Registration successful. Please check your email for verification OTP.'' 1))
   \<and> toLowerCase ''bob@example.com'' = toLowerCase ''Bob@Example.com''
   \<and> never_verified example_cfg db_registered ''bob@example.com''
        [(example_env_later, ForgotPassword ''bob@example.com''),
         (example_env_later, VerifyEmail ''bob@example.com'' ''0000'')]
   \<and> register example_env_later db_registered ''bob@example.com'' ''other'' ''Rob'' ''B'' None
       = (db_registered, Inl (Conflict ''User with this email already exists''))
   \<and> verification_state db_registered ''bob@example.com'' = Some (PENDING_VERIFICATION, False)
   \<and> verification_state
        (run example_cfg db_registered
           [(example_env_later, ForgotPassword ''bob@example.com''),
            (example_env_later, VerifyEmail ''bob@example.com'' ''0000'')])
        ''bob@example.com'' = Some (PENDING_VERIFICATION, False)
   \<and> snd (verifyEmail example_env_later
             (run example_cfg db_registered
                [(example_env_later, ForgotPassword ''bob@example.com''),
                 (example_env_later, VerifyEmail ''bob@example.com'' ''0000'')])
             ''Bob@Example.com'' ''4821'')
       = Inr (StatusMessage ''success'' ''Email verified successfully'')
   \<and> verification_state
        (fst (verifyEmail example_env_later
                (run example_cfg db_registered
                   [(example_env_later, ForgotPassword ''bob@example.com''),
                    (example_env_later, VerifyEmail ''bob@example.com'' ''0000'')])
                ''Bob@Example.com'' ''4821''))
        ''bob@example.com'' = Some (ACTIVE, True)"
proof -
  let ?cs = "[(example_env_later, ForgotPassword ''bob@example.com''),
         (example_env_later, VerifyEmail ''bob@example.com'' ''0000'')]"
  have a: "register example_env empty_db ''Bob@Example.com'' ''Passw0rd!'' ''Bob'' ''B'' None
       = (db_registered,
          Inr (RegisterResult ''success''
            ''Registration successful. Please check your email for verification OTP.'' 1))"
    by (simp add: register_bob db_registered_eq)
  have b: "toLowerCase ''bob@example.com'' = toLowerCase ''Bob@Example.com''"
    by (simp add: toLowerCase_bob toLowerCase_Bob)
  have v: "verifyEmail example_env_later db_reset_requested ''bob@example.com'' ''0000''
             = (db_reset_requested, Inl (BadRequest ''Invalid OTP''))"
    by (simp add: verifyEmail_def toLowerCase_bob find_db_reset_requested)
      (simp add: bob_registered_def truthy_def)
  have c: "never_verified example_cfg db_registered ''bob@example.com'' ?cs"
    using v by (simp add: db_reset_requested_def [symmetric])
  have d: "run example_cfg db_registered ?cs = db_reset_requested"
    using v by (simp add: db_reset_requested_def [symmetric])
  have w: "snd (verifyEmail example_env_later db_reset_requested ''Bob@Example.com'' ''4821'')
             = Inr (StatusMessage ''success'' ''Email verified successfully'')"
    by (simp add: verifyEmail_def toLowerCase_Bob find_db_reset_requested)
      (simp add: bob_registered_def truthy_def expires_before_now_def example_env_later_def)
  note t = register_twice_conflict_first_pending [OF wf_empty_db a b,
      of example_env_later "''other''" "''Rob''" "''B''" None example_cfg ?cs
         example_env_later "''4821''"]
  have r1: "register example_env_later db_registered ''bob@example.com'' ''other'' ''Rob'' ''B'' None
       = (db_registered, Inl (Conflict ''User with this email already exists''))"
    using t by simp
  have r2: "verification_state db_registered ''bob@example.com''
              = Some (PENDING_VERIFICATION, False)"
    using t by (simp add: toLowerCase_Bob)
  have r3: "verification_state (run example_cfg db_registered ?cs) ''bob@example.com''
              = Some (PENDING_VERIFICATION, False)"
    using t c unfolding toLowerCase_Bob by blast
  have r4: "snd (verifyEmail example_env_later (run example_cfg db_registered ?cs)
                   ''Bob@Example.com'' ''4821'')
              = Inr (StatusMessage ''success'' ''Email verified successfully'')"
    unfolding d by (rule w)
  have r5: "verification_state
              (fst (verifyEmail example_env_later (run example_cfg db_registered ?cs)
                      ''Bob@Example.com'' ''4821''))
              ''bob@example.com'' = Some (ACTIVE, True)"
    using t r4 unfolding toLowerCase_Bob by blast
  show ?thesis
    by (intro conjI wf_empty_db a b c r1 r2 r3 r4 r5)
qed

section \<open>The challenge columns\<close>

lemma find_alice_mfa: "findUnique_email (db_of alice_mfa) ''alice@example.com'' = Some alice_mfa"
  by (rule findUnique_email_alice) (simp add: alice_mfa_def alice_with_code_def alice_def)

text \<open>
  C3, as the code has it. A row has two code columns and one expiry column. Login with
  MFA and forgot-password write their code to \<open>resetPasswordToken\<close> and their expiry
  (5 and 10 minutes) to \<open>resetPasswordExpires\<close> and leave \<open>emailVerificationToken\<close>
  as it is; a code that was in \<open>resetPasswordToken\<close> before and differs from the new
  one no longer passes \<open>verifyOtp\<close> or \<open>resetPassword\<close>. Registration and the
  resending of the verification code write \<open>emailVerificationToken\<close> and the same
  expiry column (10 minutes); resending leaves \<open>resetPasswordToken\<close> as it is.
\<close>

theorem challenge_columns_overwritten:
  "(findUnique_email db e = Some u \<and> emailVerified u \<and> bcrypt_compare env pw (password u)
      \<and> mfaEnabled u \<longrightarrow>
      map_option challenge_fields (findUnique_email (fst (login cfg env db e pw fcm)) e)
        = Some (emailVerificationToken u, Some (generateOTP env), Some (now env + 5 * 60 * 1000))
      \<and> (c \<noteq> generateOTP env \<longrightarrow>
           snd (verifyOtp cfg env_b (fst (login cfg env db e pw fcm)) e c)
             = Inl (Unauthorized ''Invalid or expired OTP.'')))
   \<and> (findUnique_email db (toLowerCase e) = Some u \<longrightarrow>
      map_option challenge_fields
        (findUnique_email (fst (forgotPassword env db e)) (toLowerCase e))
        = Some (emailVerificationToken u, Some (generateOTP env), Some (now env + 10 * 60 * 1000))
      \<and> (c \<noteq> generateOTP env \<longrightarrow>
           snd (verifyOtp cfg env_b (fst (forgotPassword env db e)) (toLowerCase e) c)
             = Inl (Unauthorized ''Invalid or expired OTP.'')
           \<and> snd (resetPassword env_b (fst (forgotPassword env db e)) e c np np)
             = Inl (BadRequest ''Invalid OTP'')))
   \<and> (findUnique_email db_v (toLowerCase e_v) = Some u_v \<and> \<not> emailVerified u_v \<longrightarrow>
      map_option challenge_fields
        (findUnique_email (fst (resendEmailVerificationOTP env db_v e_v)) (toLowerCase e_v))
        = Some (Some (generateOTP env), resetPasswordToken u_v, Some (now env + 10 * 60 * 1000)))
   \<and> (findUnique_email db_r (toLowerCase e_r) = None \<longrightarrow>
      map_option challenge_fields
        (findUnique_email (fst (register env db_r e_r pw_r fn ln ph)) (toLowerCase e_r))
        = Some (Some (generateOTP env), None, Some (now env + 10 * 60 * 1000)))"
proof -
  have l: "findUnique_email db e = Some u \<Longrightarrow> emailVerified u
      \<Longrightarrow> bcrypt_compare env pw (password u) \<Longrightarrow> mfaEnabled u \<Longrightarrow>
      findUnique_email (fst (login cfg env db e pw fcm)) e
        = Some ((if truthy fcm then u\<lparr>fcmToken := fcm, updatedAt := now env\<rparr> else u)
                  \<lparr>resetPasswordToken := Some (generateOTP env),
                   resetPasswordExpires := Some (now env + 5 * 60 * 1000),
                   updatedAt := now env\<rparr>)"
    by (simp add: login_def Let_def comparePasswords_def findUnique_email_user_update)
  have f: "findUnique_email db (toLowerCase e) = Some u \<Longrightarrow>
      findUnique_email (fst (forgotPassword env db e)) (toLowerCase e)
        = Some (u\<lparr>resetPasswordToken := Some (generateOTP env),
                  resetPasswordExpires := Some (now env + 10 * 60 * 1000),
                  updatedAt := now env\<rparr>)"
    by (simp add: forgotPassword_def Let_def findUnique_email_user_update)
  have v: "findUnique_email db_v (toLowerCase e_v) = Some u_v \<Longrightarrow> \<not> emailVerified u_v \<Longrightarrow>
      findUnique_email (fst (resendEmailVerificationOTP env db_v e_v)) (toLowerCase e_v)
        = Some (u_v\<lparr>emailVerificationToken := Some (generateOTP env),
                    resetPasswordExpires := Some (now env + 10 * 60 * 1000),
                    updatedAt := now env\<rparr>)"
    by (simp add: resendEmailVerificationOTP_def Let_def findUnique_email_user_update)
  have r: "findUnique_email db_r (toLowerCase e_r) = None \<Longrightarrow>
      map_option challenge_fields
        (findUnique_email (fst (register env db_r e_r pw_r fn ln ph)) (toLowerCase e_r))
        = Some (Some (generateOTP env), None, Some (now env + 10 * 60 * 1000))"
    by (simp add: register_def Let_def findUnique_email_user_create challenge_fields_def
        users_defaults_def)
  show ?thesis
    using l f v r
    by (simp add: challenge_fields_def verifyOtp_def resetPassword_def truthy_def)
qed


theorem challenge_columns_overwritten_witness:
  "findUnique_email (db_of alice_mfa) ''alice@example.com'' = Some alice_mfa
   \<and> emailVerified alice_mfa
   \<and> bcrypt_compare example_env_later ''Passw0rd!'' (password alice_mfa)
   \<and> mfaEnabled alice_mfa
   \<and> challenge_fields alice_mfa = (None, Some ''4821'', Some 1300000)
   \<and> ''4821'' \<noteq> generateOTP example_env_later
   \<and> findUnique_email (db_of bob) (toLowerCase ''bob@example.com'') = Some bob
   \<and> \<not> emailVerified bob
   \<and> findUnique_email empty_db (toLowerCase ''Bob@Example.com'') = None
   \<and> map_option challenge_fields
        (findUnique_email
           (fst (login example_cfg example_env_later (db_of alice_mfa) ''alice@example.com''
                   ''Passw0rd!'' None))
           ''alice@example.com'')
       = Some (None, Some ''7350'', Some 1360000)
   \<and> snd (verifyOtp example_cfg example_env_later
             (fst (login example_cfg example_env_later (db_of alice_mfa) ''alice@example.com''
                     ''Passw0rd!'' None))
             ''alice@example.com'' ''4821'')
       = Inl (Unauthorized ''Invalid or expired OTP.'')
   \<and> map_option challenge_fields
        (findUnique_email
           (fst (forgotPassword example_env_later (db_of alice_mfa) ''alice@example.com''))
           ''alice@example.com'')
       = Some (None, Some ''7350'', Some 1660000)
   \<and> snd (resetPassword example_env_later
             (fst (forgotPassword example_env_later (db_of alice_mfa) ''alice@example.com''))
             ''alice@example.com'' ''4821'' ''N3wPassw0rd'' ''N3wPassw0rd'')
       = Inl (BadRequest ''Invalid OTP'')
   \<and> map_option challenge_fields
        (findUnique_email
           (fst (resendEmailVerificationOTP example_env_later (db_of bob) ''bob@example.com''))
           ''bob@example.com'')
       = Some (Some ''7350'', Some ''4821'', Some 1660000)
   \<and> map_option challenge_fields
        (findUnique_email
           (fst (register example_env_later empty_db ''Bob@Example.com'' ''Passw0rd!''
                   ''Bob'' ''B'' None))
           ''bob@example.com'')
       = Some (Some ''7350'', None, Some 1660000)"
proof -
  have p: "emailVerified alice_mfa"
    "bcrypt_compare example_env_later ''Passw0rd!'' (password alice_mfa)"
    "mfaEnabled alice_mfa"
    by (simp_all add: alice_mfa_def alice_with_code_def alice_def example_env_later_def
        example_env_def)
  have q: "challenge_fields alice_mfa = (None, Some ''4821'', Some 1300000)"
    by (simp add: challenge_fields_def alice_mfa_def alice_with_code_def alice_def)
  have ne: "''4821'' \<noteq> generateOTP example_env_later"
    by (simp add: generateOTP_later)
  have fb: "findUnique_email (db_of bob) (toLowerCase ''bob@example.com'') = Some bob"
    by (simp add: toLowerCase_bob findUnique_email_bob)
  have nb: "\<not> emailVerified bob"
    by (simp add: bob_def)
  have fe: "findUnique_email empty_db (toLowerCase ''Bob@Example.com'') = None"
    by (simp add: findUnique_email_def empty_db_def)
  have n: "now example_env_later = 1060000"
    by (simp add: example_env_later_def)
  have fa: "findUnique_email (db_of alice_mfa) (toLowerCase ''alice@example.com'')
              = Some alice_mfa"
    by (simp add: toLowerCase_alice find_alice_mfa)
  have rb: "resetPasswordToken bob = Some ''4821''"
    by (simp add: bob_def)
  note t = challenge_columns_overwritten [where db = "db_of alice_mfa"
      and e = "''alice@example.com''" and u = alice_mfa and env = example_env_later
      and pw = "''Passw0rd!''" and cfg = example_cfg and fcm = None and c = "''4821''"
      and env_b = example_env_later and np = "''N3wPassw0rd''" and db_v = "db_of bob"
      and e_v = "''bob@example.com''" and u_v = bob and db_r = empty_db
      and e_r = "''Bob@Example.com''" and pw_r = "''Passw0rd!''" and fn = "''Bob''"
      and ln = "''B''" and ph = None]
  have r1: "map_option challenge_fields
        (findUnique_email
           (fst (login example_cfg example_env_later (db_of alice_mfa) ''alice@example.com''
                   ''Passw0rd!'' None))
           ''alice@example.com'')
       = Some (None, Some ''7350'', Some 1360000)"
    and r2: "snd (verifyOtp example_cfg example_env_later
             (fst (login example_cfg example_env_later (db_of alice_mfa) ''alice@example.com''
                     ''Passw0rd!'' None))
             ''alice@example.com'' ''4821'')
       = Inl (Unauthorized ''Invalid or expired OTP.'')"
    using t [THEN conjunct1] find_alice_mfa p ne q
    by (simp_all add: generateOTP_later n challenge_fields_def)
  have r3: "map_option challenge_fields
        (findUnique_email
           (fst (forgotPassword example_env_later (db_of alice_mfa) ''alice@example.com''))
           ''alice@example.com'')
       = Some (None, Some ''7350'', Some 1660000)"
    and r4: "snd (resetPassword example_env_later
             (fst (forgotPassword example_env_later (db_of alice_mfa) ''alice@example.com''))
             ''alice@example.com'' ''4821'' ''N3wPassw0rd'' ''N3wPassw0rd'')
       = Inl (BadRequest ''Invalid OTP'')"
    using t [THEN conjunct2, THEN conjunct1] fa ne q
    by (simp_all add: generateOTP_later n challenge_fields_def toLowerCase_alice)
  have r5: "map_option challenge_fields
        (findUnique_email
           (fst (resendEmailVerificationOTP example_env_later (db_of bob) ''bob@example.com''))
           ''bob@example.com'')
       = Some (Some ''7350'', Some ''4821'', Some 1660000)"
    using t [THEN conjunct2, THEN conjunct2, THEN conjunct1] fb nb rb
    by (simp add: generateOTP_later n toLowerCase_bob)
  have r6: "map_option challenge_fields
        (findUnique_email
           (fst (register example_env_later empty_db ''Bob@Example.com'' ''Passw0rd!''
                   ''Bob'' ''B'' None))
           ''bob@example.com'')
       = Some (Some ''7350'', None, Some 1660000)"
    using t [THEN conjunct2, THEN conjunct2, THEN conjunct2] fe
    by (simp add: generateOTP_later n toLowerCase_Bob)
  show ?thesis
    by (intro conjI find_alice_mfa p q ne fb nb fe r1 r2 r3 r4 r5 r6)
qed

text \<open>
  C3, as the claim words it, fails: Bob registers (code 4821) and a minute later asks
  for a password reset (code 7350). The reset did not overwrite the registration code:
  the row holds both, \<open>verifyEmail\<close> accepts 4821 and \<open>resetPassword\<close> accepts 7350.
\<close>

theorem two_outstanding_challenges_counterexample:
  "map_option challenge_fields (findUnique_email db_registered ''bob@example.com'')
     = Some (Some ''4821'', None, Some 1600000)
   \<and> map_option challenge_fields (findUnique_email db_reset_requested ''bob@example.com'')
     = Some (Some ''4821'', Some ''7350'', Some 1660000)
   \<and> snd (verifyEmail example_env_later db_reset_requested ''bob@example.com'' ''4821'')
     = Inr (StatusMessage ''success'' ''Email verified successfully'')
   \<and> snd (resetPassword example_env_later db_reset_requested ''bob@example.com'' ''7350''
            ''N3wPassw0rd'' ''N3wPassw0rd'')
     = Inr (StatusMessage ''success'' ''Password reset successfully'')"
proof -
  have a: "map_option challenge_fields (findUnique_email db_registered ''bob@example.com'')
     = Some (Some ''4821'', None, Some 1600000)"
    by (simp add: find_db_registered challenge_fields_def bob_registered_def)
  have b: "map_option challenge_fields (findUnique_email db_reset_requested ''bob@example.com'')
     = Some (Some ''4821'', Some ''7350'', Some 1660000)"
    by (simp add: find_db_reset_requested challenge_fields_def bob_registered_def)
  have c: "snd (verifyEmail example_env_later db_reset_requested ''bob@example.com'' ''4821'')
     = Inr (StatusMessage ''success'' ''Email verified successfully'')"
    by (simp add: verifyEmail_def toLowerCase_bob find_db_reset_requested)
      (simp add: bob_registered_def truthy_def expires_before_now_def example_env_later_def)
  have d: "snd (resetPassword example_env_later db_reset_requested ''bob@example.com'' ''7350''
            ''N3wPassw0rd'' ''N3wPassw0rd'')
     = Inr (StatusMessage ''success'' ''Password reset successfully'')"
    by (simp add: resetPassword_def toLowerCase_bob find_db_reset_requested)
      (simp add: bob_registered_def truthy_def expires_before_now_def example_env_later_def)
  show ?thesis
    by (intro conjI a b c d)
qed

end
